theory Spec2Isabelle
  imports Main
begin

section \<open>Python values used by the program\<close>

text \<open>
  Values that travel as JSON (capability parameters, step parameters, the execution
  context, audit details). Dictionaries keep their insertion order, as Python's do.
  Floats do not occur in the modelled paths and are left out; strings are ASCII.
\<close>

datatype json =
    JNull
  | JBool bool
  | JInt int
  | JStr string
  | JList "json list"
  | JDict "(string \<times> json) list"

text \<open>
  A handler returns \<open>Any\<close>: either a value \<open>json.dumps\<close> accepts, or some object it
  rejects with \<open>TypeError\<close> (a set, bytes, an instance of a class, or a container
  holding one); of such an object the model keeps the name of the type \<open>json.dumps\<close>
  complains about.
\<close>

datatype pyval = Json json | Unserializable string

text \<open>
  What a \<open>raise\<close> throws, with the text \<open>str(e)\<close> gives: an exception of class
  \<open>Exception\<close> or of a subclass, or one that derives from \<open>BaseException\<close> only
  (\<open>SystemExit\<close>, \<open>KeyboardInterrupt\<close>, \<open>GeneratorExit\<close>). A clause \<open>except Exception\<close>
  catches the first kind and lets the second pass.
\<close>

datatype pyexn = Exception string | BaseException string

fun str_exn :: "pyexn \<Rightarrow> string" where
  "str_exn (Exception msg) = msg"
| "str_exn (BaseException msg) = msg"

fun catchable :: "pyexn \<Rightarrow> bool" where
  "catchable (Exception msg) = True"
| "catchable (BaseException msg) = False"

text \<open>\<open>str(n)\<close> for a non-negative integer.\<close>

definition digit_char :: "nat \<Rightarrow> char" where
  "digit_char d = ''0123456789'' ! d"

fun show_nat :: "nat \<Rightarrow> string" where
  "show_nat n = (if n < 10 then [digit_char n] else show_nat (n div 10) @ [digit_char (n mod 10)])"

declare show_nat.simps [simp del]

definition show_int :: "int \<Rightarrow> string" where
  "show_int i = (if i < 0 then CHR ''-'' # show_nat (nat (- i)) else show_nat (nat i))"

text \<open>\<open>f"{x}"\<close> for an argument that is a string or \<open>None\<close>.\<close>

fun py_str :: "string option \<Rightarrow> string" where
  "py_str None = ''None''"
| "py_str (Some s) = s"

text \<open>\<open>sep.join(xs)\<close>.\<close>

fun join :: "string \<Rightarrow> string list \<Rightarrow> string" where
  "join sep [] = []"
| "join sep [x] = x"
| "join sep (x # y # ys) = x @ sep @ join sep (y # ys)"

text \<open>\<open>s.rstrip('/')\<close>.\<close>

definition rstrip_slash :: "string \<Rightarrow> string" where
  "rstrip_slash s = rev (dropWhile (\<lambda>c. c = CHR ''/'') (rev s))"

text \<open>Truthiness of a value, as \<open>if x:\<close> and \<open>x or y\<close> test it.\<close>

fun truthy :: "json \<Rightarrow> bool" where
  "truthy JNull = False"
| "truthy (JBool b) = b"
| "truthy (JInt i) = (i \<noteq> 0)"
| "truthy (JStr s) = (s \<noteq> [])"
| "truthy (JList xs) = (xs \<noteq> [])"
| "truthy (JDict kvs) = (kvs \<noteq> [])"

text \<open>
  \<open>json.dumps\<close> with its default separators. In a string, the quote and the backslash
  are escaped with a backslash, the control characters below 0x20 by their short escape
  or as \<open>\u00XX\<close>. Strings are ASCII: a \<open>char\<close> is a byte, and the escapes \<open>json.dumps\<close>
  writes for code points beyond 0x7F are not modelled.
\<close>

definition hex_digit :: "nat \<Rightarrow> char" where
  "hex_digit d = ''0123456789abcdef'' ! d"

definition json_escape_char :: "char \<Rightarrow> string" where
  "json_escape_char c =
     (if c = CHR ''\"'' \<or> c = CHR 0x5C then [CHR 0x5C, c]
      else if c = CHR 0x0A then [CHR 0x5C, CHR ''n'']
      else if c = CHR 0x0D then [CHR 0x5C, CHR ''r'']
      else if c = CHR 0x09 then [CHR 0x5C, CHR ''t'']
      else if c = CHR 0x08 then [CHR 0x5C, CHR ''b'']
      else if c = CHR 0x0C then [CHR 0x5C, CHR ''f'']
      else if (of_char c :: nat) < 32
        then [CHR 0x5C, CHR ''u'', CHR ''0'', CHR ''0'',
              hex_digit (of_char c div 16), hex_digit (of_char c mod 16)]
      else [c])"

definition json_escape :: "string \<Rightarrow> string" where
  "json_escape s = concat (map json_escape_char s)"

definition json_quote :: "string \<Rightarrow> string" where
  "json_quote s = CHR ''\"'' # json_escape s @ [CHR ''\"'']"

fun json_dumps :: "json \<Rightarrow> string" where
  "json_dumps JNull = ''null''"
| "json_dumps (JBool b) = (if b then ''true'' else ''false'')"
| "json_dumps (JInt i) = show_int i"
| "json_dumps (JStr s) = json_quote s"
| "json_dumps (JList xs) = ''['' @ join '', '' (map json_dumps xs) @ '']''"
| "json_dumps (JDict kvs) =
     ''{'' @ join '', '' (map (\<lambda>kv. json_quote (fst kv) @ '': '' @ json_dumps (snd kv)) kvs) @ ''}''"


section \<open>The store (\<open>database.py\<close>)\<close>

text \<open>
  Each table is the list of its rows in insertion order, which is the order of the
  \<open>AUTOINCREMENT\<close> key and the order in which SQLite scans a table that has no index
  for the query; \<open>fetchone\<close> takes the first row of that scan. The \<open>id\<close> and timestamp
  columns, which no modelled path reads, are left out. A nullable TEXT column is a
  \<open>string option\<close>.
\<close>

record capability_row =
  row_bot_name :: string
  row_capability_id :: string
  row_description :: string
  row_parameters :: string
  row_permissions_required :: string

text \<open>
  A step of a stored command, as \<open>json.loads\<close> gives it back: a dictionary in which each
  of the three keys may be missing (\<open>step.get\<close> then yields \<open>None\<close>, or the default).
  Where present, \<open>bot_name\<close> and \<open>capability_id\<close> are strings.
\<close>

record step =
  step_bot_name :: "string option"
  step_capability_id :: "string option"
  step_parameters :: "json option"

text \<open>
  The \<open>steps\<close> column holds \<open>json.dumps(steps)\<close> and is read back through
  \<open>json.loads\<close>; the row keeps the step list itself.
\<close>

record command_row =
  command_name :: string
  command_description :: string
  steps :: "step list"
  created_by :: string
  enabled :: bool

record audit_row =
  action_type :: string
  audit_user_id :: "string option"
  audit_username :: "string option"
  details :: string
  audit_success :: bool

record permission_row =
  perm_user_id :: string
  perm_bot_name :: "string option"
  perm_capability_id :: "string option"
  permission_level :: string

record database =
  capabilities :: "capability_row list"
  custom_commands :: "command_row list"
  audit_logs :: "audit_row list"
  permissions :: "permission_row list"

definition init_db :: database where
  "init_db = \<lparr>capabilities = [], custom_commands = [], audit_logs = [], permissions = []\<rparr>"

text \<open>
  A capability as the program passes it around, a dictionary. The registry builds it
  with \<open>parameters\<close> and \<open>permissions_required\<close> as the Python values it was given;
  \<open>dict(row)\<close> of a store row carries the two TEXT columns, that is the JSON text.
\<close>

datatype 'a column = Native 'a | Text string

record capability =
  cap_bot_name :: string
  cap_capability_id :: string
  cap_description :: string
  cap_parameters :: "json column"
  cap_permissions_required :: "string list column"

definition fetchone :: "'a list \<Rightarrow> 'a option" where
  "fetchone rows = (case rows of [] \<Rightarrow> None | r # _ \<Rightarrow> Some r)"

text \<open>SQL \<open>column = ?\<close>: never true when either side is NULL.\<close>

definition sql_eq :: "string option \<Rightarrow> string option \<Rightarrow> bool" where
  "sql_eq col arg = (case (col, arg) of (Some x, Some y) \<Rightarrow> x = y | _ \<Rightarrow> False)"

text \<open>\<open>parameters or {}\<close> and \<open>permissions_required or []\<close>.\<close>

definition or_empty_dict :: "json option \<Rightarrow> json" where
  "or_empty_dict p = (case p of None \<Rightarrow> JDict [] | Some v \<Rightarrow> if truthy v then v else JDict [])"

definition or_empty_list :: "string list option \<Rightarrow> string list" where
  "or_empty_list p = (case p of None \<Rightarrow> [] | Some xs \<Rightarrow> xs)"

definition dict_of_row :: "capability_row \<Rightarrow> capability" where
  "dict_of_row r =
     \<lparr>cap_bot_name = row_bot_name r, cap_capability_id = row_capability_id r,
      cap_description = row_description r, cap_parameters = Text (row_parameters r),
      cap_permissions_required = Text (row_permissions_required r)\<rparr>"

text \<open>
  \<open>Database.register_capability\<close>: the INSERT fails with \<open>IntegrityError\<close> on
  \<open>UNIQUE(bot_name, capability_id)\<close>, and the method then returns \<open>False\<close>.
\<close>

definition db_register_capability ::
  "string \<Rightarrow> string \<Rightarrow> string \<Rightarrow> json option \<Rightarrow> string list option \<Rightarrow> database \<Rightarrow> bool \<times> database" where
  "db_register_capability bot_name capability_id description parameters permissions_required d =
     (if list_ex (\<lambda>r. row_bot_name r = bot_name \<and> row_capability_id r = capability_id) (capabilities d)
      then (False, d)
      else (True, d\<lparr>capabilities := capabilities d @
              [\<lparr>row_bot_name = bot_name, row_capability_id = capability_id,
                row_description = description,
                row_parameters = json_dumps (or_empty_dict parameters),
                row_permissions_required = json_dumps (JList (map JStr (or_empty_list permissions_required)))\<rparr>]\<rparr>))"

definition db_get_capability :: "string option \<Rightarrow> string option \<Rightarrow> database \<Rightarrow> capability option" where
  "db_get_capability bot_name capability_id d =
     map_option dict_of_row
       (fetchone (filter (\<lambda>r. sql_eq (Some (row_bot_name r)) bot_name \<and>
                              sql_eq (Some (row_capability_id r)) capability_id) (capabilities d)))"

text \<open>\<open>save_custom_command\<close>: \<open>command_name\<close> is UNIQUE; new rows are enabled.\<close>

definition save_custom_command :: "string \<Rightarrow> string \<Rightarrow> step list \<Rightarrow> string \<Rightarrow> database \<Rightarrow> bool \<times> database" where
  "save_custom_command name description stps creator d =
     (if list_ex (\<lambda>r. command_name r = name) (custom_commands d) then (False, d)
      else (True, d\<lparr>custom_commands := custom_commands d @
              [\<lparr>command_name = name, command_description = description, steps = stps,
                created_by = creator, enabled = True\<rparr>]\<rparr>))"

definition get_custom_command :: "string \<Rightarrow> database \<Rightarrow> command_row option" where
  "get_custom_command name d =
     fetchone (filter (\<lambda>r. command_name r = name \<and> enabled r) (custom_commands d))"

text \<open>
  \<open>log_action\<close> serialises \<open>details or {}\<close>; \<open>json.dumps\<close> raises \<open>TypeError\<close> on a
  dictionary that holds a value it cannot serialise, before anything is inserted.
\<close>

definition dumps_details :: "pyval \<Rightarrow> pyexn + string" where
  "dumps_details v =
     (case v of
        Json j \<Rightarrow> Inr (json_dumps (if truthy j then j else JDict []))
      | Unserializable t \<Rightarrow>
          Inl (Exception (''Object of type '' @ t @ '' is not JSON serializable'')))"

definition log_action ::
  "string \<Rightarrow> string option \<Rightarrow> string option \<Rightarrow> pyval \<Rightarrow> bool \<Rightarrow> database \<Rightarrow> (pyexn + unit) \<times> database" where
  "log_action atype user_id username dets ok d =
     (case dumps_details dets of
        Inl e \<Rightarrow> (Inl e, d)
      | Inr txt \<Rightarrow>
          (Inr (), d\<lparr>audit_logs := audit_logs d @
             [\<lparr>action_type = atype, audit_user_id = user_id, audit_username = username,
               details = txt, audit_success = ok\<rparr>]\<rparr>))"

text \<open>\<open>levels.get(name, 0)\<close> for \<open>levels = {'read': 1, 'execute': 2, 'admin': 3}\<close>.\<close>

definition levels_get :: "string \<Rightarrow> nat" where
  "levels_get name =
     (if name = ''read'' then 1 else if name = ''execute'' then 2 else if name = ''admin'' then 3 else 0)"

definition permission_level_allows :: "string \<Rightarrow> string \<Rightarrow> bool" where
  "permission_level_allows user_level required_level = (levels_get user_level \<ge> levels_get required_level)"

text \<open>The three queries of \<open>check_permission\<close>, in its order.\<close>

definition capability_tier :: "string \<Rightarrow> string option \<Rightarrow> string option \<Rightarrow> permission_row \<Rightarrow> bool" where
  "capability_tier user_id bot_name capability_id r =
     (perm_user_id r = user_id \<and> sql_eq (perm_bot_name r) bot_name \<and>
      sql_eq (perm_capability_id r) capability_id)"

definition bot_tier :: "string \<Rightarrow> string option \<Rightarrow> permission_row \<Rightarrow> bool" where
  "bot_tier user_id bot_name r =
     (perm_user_id r = user_id \<and> sql_eq (perm_bot_name r) bot_name \<and> perm_capability_id r = None)"

definition global_tier :: "string \<Rightarrow> permission_row \<Rightarrow> bool" where
  "global_tier user_id r = (perm_user_id r = user_id \<and> perm_bot_name r = None)"

definition check_permission :: "string \<Rightarrow> string option \<Rightarrow> string option \<Rightarrow> string \<Rightarrow> database \<Rightarrow> bool" where
  "check_permission user_id bot_name capability_id required d =
     (case fetchone (filter (capability_tier user_id bot_name capability_id) (permissions d)) of
        Some r \<Rightarrow> permission_level_allows (permission_level r) required
      | None \<Rightarrow>
     (case fetchone (filter (bot_tier user_id bot_name) (permissions d)) of
        Some r \<Rightarrow> permission_level_allows (permission_level r) required
      | None \<Rightarrow>
     (case fetchone (filter (global_tier user_id) (permissions d)) of
        Some r \<Rightarrow> permission_level_allows (permission_level r) required
      | None \<Rightarrow> False)))"

definition grant_permission :: "string \<Rightarrow> string \<Rightarrow> string option \<Rightarrow> string option \<Rightarrow> database \<Rightarrow> database" where
  "grant_permission user_id level bot_name capability_id d =
     d\<lparr>permissions := permissions d @
        [\<lparr>perm_user_id = user_id, perm_bot_name = bot_name,
          perm_capability_id = capability_id, permission_level = level\<rparr>]\<rparr>"

text \<open>A user holds a grant when a row with exactly these columns is stored.\<close>

definition holds_grant :: "string \<Rightarrow> string option \<Rightarrow> string option \<Rightarrow> string \<Rightarrow> database \<Rightarrow> bool" where
  "holds_grant user_id bot_name capability_id level d =
     list_ex (\<lambda>r. perm_user_id r = user_id \<and> perm_bot_name r = bot_name \<and>
                   perm_capability_id r = capability_id \<and> permission_level r = level) (permissions d)"

section \<open>The capability registry (\<open>registry.py\<close>) and the executor's state\<close>

text \<open>
  The dictionary \<open>_execute_step\<close> returns is a \<open>step_result\<close>: \<open>success\<close>, and \<open>result\<close> or
  \<open>error\<close> when the key is present.

  A handler is whatever was passed to \<open>register_bot_handler\<close>: a plain function, an object
  with an \<open>execute_capability\<close> method, or a value that is neither (calling it raises
  \<open>AttributeError\<close> with the given text). The call acts on the world outside the
  program (of type \<open>'w\<close>: the child service, the network) and either returns a value or
  raises an exception.
\<close>

type_synonym 'w behaviour =
  "string option \<Rightarrow> json \<Rightarrow> json option \<Rightarrow> 'w \<Rightarrow> (pyexn + pyval) \<times> 'w"

datatype 'w handler =
    Function "'w behaviour"
  | Object "'w behaviour"
  | NotCallable string

text \<open>
  The state of the running program: the store, the registry's cache, the executor's
  handler table and the outside world. Two traces are added for verification:
  \<open>invocations\<close> has one entry \<open>(bot_name, capability_id, parameters, context)\<close> for each
  call of a handler, in order; \<open>dispatches\<close> has one entry
  \<open>(bot_name, capability_id, parameters, outcome)\<close> for each call of \<open>_execute_step\<close>, in
  order, the outcome being the dictionary it returned or the exception it let pass.
\<close>

record step_result =
  sr_success :: bool
  sr_result :: "pyval option"
  sr_error :: "string option"

record 'w system =
  db :: database
  capabilities_cache :: "string \<rightharpoonup> capability"
  bot_handlers :: "string \<rightharpoonup> 'w handler"
  world :: 'w
  invocations :: "(string \<times> string option \<times> json \<times> json option) list"
  dispatches :: "(string option \<times> string option \<times> json \<times> (pyexn + step_result)) list"

definition init_system :: "'w \<Rightarrow> 'w system" where
  "init_system w =
     \<lparr>db = init_db, capabilities_cache = Map.empty, bot_handlers = Map.empty,
      world = w, invocations = [], dispatches = []\<rparr>"

text \<open>The cache key \<open>f"{bot_name}:{capability_id}"\<close>.\<close>

definition cache_key :: "string option \<Rightarrow> string option \<Rightarrow> string" where
  "cache_key bot_name capability_id = py_str bot_name @ '':'' @ py_str capability_id"

definition register_capability ::
  "string \<Rightarrow> string \<Rightarrow> string \<Rightarrow> json option \<Rightarrow> string list option \<Rightarrow> 'w system
     \<Rightarrow> (pyexn + bool) \<times> 'w system" where
  "register_capability bot_name capability_id description parameters permissions_required s =
     (case db_register_capability bot_name capability_id description parameters permissions_required (db s) of
        (False, d1) \<Rightarrow> (Inr False, s\<lparr>db := d1\<rparr>)
      | (True, d1) \<Rightarrow>
          (let s1 = s\<lparr>db := d1,
                 capabilities_cache := (capabilities_cache s)
                   (cache_key (Some bot_name) (Some capability_id) \<mapsto>
                     \<lparr>cap_bot_name = bot_name, cap_capability_id = capability_id,
                      cap_description = description,
                      cap_parameters = Native (or_empty_dict parameters),
                      cap_permissions_required = Native (or_empty_list permissions_required)\<rparr>)\<rparr>
           in case log_action ''capability_registered'' None None
                     (Json (JDict [(''bot_name'', JStr bot_name), (''capability_id'', JStr capability_id),
                                   (''description'', JStr description)])) True d1 of
                (Inl e, d2) \<Rightarrow> (Inl e, s1\<lparr>db := d2\<rparr>)
              | (Inr _, d2) \<Rightarrow> (Inr True, s1\<lparr>db := d2\<rparr>)))"

definition get_capability ::
  "string option \<Rightarrow> string option \<Rightarrow> 'w system \<Rightarrow> capability option \<times> 'w system" where
  "get_capability bot_name capability_id s =
     (case capabilities_cache s (cache_key bot_name capability_id) of
        Some cap \<Rightarrow> (Some cap, s)
      | None \<Rightarrow>
          (case db_get_capability bot_name capability_id (db s) of
             Some cap \<Rightarrow>
               (Some cap, s\<lparr>capabilities_cache :=
                             (capabilities_cache s)(cache_key bot_name capability_id \<mapsto> cap)\<rparr>)
           | None \<Rightarrow> (None, s)))"

text \<open>\<open>not x\<close> for a string or \<open>None\<close>.\<close>

fun falsy :: "string option \<Rightarrow> bool" where
  "falsy None = True"
| "falsy (Some s) = (s = [])"

text \<open>
  \<open>validate_command_steps\<close>: the loop over \<open>enumerate(steps)\<close>, from index \<open>i\<close>, and the
  \<open>return True, None\<close> after it.
\<close>

fun validate_from :: "nat \<Rightarrow> step list \<Rightarrow> 'w system \<Rightarrow> (bool \<times> string option) \<times> 'w system" where
  "validate_from i [] s = ((True, None), s)"
| "validate_from i (st # rest) s =
     (if falsy (step_bot_name st) \<or> falsy (step_capability_id st)
      then ((False, Some (''Step '' @ show_nat (i + 1) @ '' missing bot_name or capability_id'')), s)
      else (case get_capability (step_bot_name st) (step_capability_id st) s of
              (None, s1) \<Rightarrow>
                ((False, Some (''Step '' @ show_nat (i + 1) @ '': Capability '' @ [CHR 0x27] @
                    py_str (step_capability_id st) @ [CHR 0x27] @ '' not found for bot '' @ [CHR 0x27] @
                    py_str (step_bot_name st) @ [CHR 0x27])), s1)
            | (Some cap, s1) \<Rightarrow> validate_from (i + 1) rest s1))"

definition validate_command_steps :: "step list \<Rightarrow> 'w system \<Rightarrow> (bool \<times> string option) \<times> 'w system" where
  "validate_command_steps stps s = validate_from 0 stps s"

section \<open>Handlers (\<open>utils/bot_handler.py\<close>)\<close>

definition opt_str :: "string option \<Rightarrow> json" where
  "opt_str x = (case x of None \<Rightarrow> JNull | Some s \<Rightarrow> JStr s)"

definition MockBotHandler :: "string \<Rightarrow> 'w handler" where
  "MockBotHandler bot_name =
     Object (\<lambda>capability_id parameters context w.
       (Inr (Json (JDict [(''status'', JStr ''success''),
                          (''message'', JStr (''Mock execution of '' @ py_str capability_id)),
                          (''parameters'', parameters),
                          (''bot_name'', JStr bot_name),
                          (''capability_id'', opt_str capability_id)])), w))"

definition WebSocketBotHandler :: "string \<Rightarrow> 'w handler" where
  "WebSocketBotHandler bot_name =
     Object (\<lambda>capability_id parameters context w.
       (Inr (Json (JDict [(''status'', JStr ''error''),
                          (''error'', JStr ''WebSocket handler not yet implemented''),
                          (''bot_name'', JStr bot_name),
                          (''capability_id'', opt_str capability_id)])), w))"

text \<open>
  What \<open>requests.post\<close> followed by \<open>raise_for_status\<close> and \<open>response.json()\<close> can meet:
  the import of \<open>requests\<close> fails; the request raises (connection refused, timeout) with
  the text given; or a response arrives, with its status code, its reason phrase and its
  body, which either decodes to a JSON value or makes \<open>response.json()\<close> raise with the
  text given.
\<close>

datatype http_reply =
    ImportFailed
  | RequestFailed string
  | Response nat string "string + json"

record http_config =
  base_url :: string
  api_key :: "string option"
  timeout :: nat

type_synonym 'w http_post =
  "string \<Rightarrow> json \<Rightarrow> (string \<times> string) list \<Rightarrow> nat \<Rightarrow> 'w \<Rightarrow> http_reply \<times> 'w"

text \<open>
  The text of the \<open>HTTPError\<close> that \<open>raise_for_status\<close> raises for a status from 400 to
  599 (\<open>None\<close>: it does not raise). The text holds the URL of the request as it was
  sent; the URLs considered need no percent-encoding, so it is the URL that was built.
\<close>

definition raise_for_status :: "nat \<Rightarrow> string \<Rightarrow> string \<Rightarrow> string option" where
  "raise_for_status code reason url =
     (if 400 \<le> code \<and> code < 500
        then Some (show_nat code @ '' Client Error: '' @ reason @ '' for url: '' @ url)
      else if 500 \<le> code \<and> code < 600
        then Some (show_nat code @ '' Server Error: '' @ reason @ '' for url: '' @ url)
      else None)"

definition http_error_result :: "string \<Rightarrow> string option \<Rightarrow> string \<Rightarrow> pyval" where
  "http_error_result bot_name capability_id msg =
     Json (JDict [(''status'', JStr ''error''), (''error'', JStr msg),
                  (''bot_name'', JStr bot_name), (''capability_id'', opt_str capability_id)])"

definition HTTPBotHandler :: "'w http_post \<Rightarrow> string \<Rightarrow> http_config \<Rightarrow> 'w handler" where
  "HTTPBotHandler post bot_name config =
     Object (\<lambda>capability_id parameters context w.
       (let url = rstrip_slash (base_url config) @ ''/execute/'' @ py_str capability_id;
            headers = (''Content-Type'', ''application/json'') #
              (case api_key config of
                 None \<Rightarrow> []
               | Some k \<Rightarrow> if k = [] then [] else [(''Authorization'', ''Bearer '' @ k)]);
            payload = JDict [(''parameters'', parameters), (''context'', or_empty_dict context)]
        in case post url payload headers (timeout config) w of
             (ImportFailed, w1) \<Rightarrow>
               (Inr (http_error_result bot_name capability_id ''HTTP handler requires requests library''), w1)
           | (RequestFailed msg, w1) \<Rightarrow> (Inr (http_error_result bot_name capability_id msg), w1)
           | (Response code reason body, w1) \<Rightarrow>
               (case raise_for_status code reason url of
                  Some msg \<Rightarrow> (Inr (http_error_result bot_name capability_id msg), w1)
                | None \<Rightarrow>
                    (case body of
                       Inl msg \<Rightarrow> (Inr (http_error_result bot_name capability_id msg), w1)
                     | Inr j \<Rightarrow>
                         (Inr (Json (JDict [(''status'', JStr ''success''), (''result'', j),
                                            (''bot_name'', JStr bot_name),
                                            (''capability_id'', opt_str capability_id)])), w1)))))"

section \<open>The executor (\<open>executor.py\<close>)\<close>

definition register_bot_handler :: "string \<Rightarrow> 'w handler \<Rightarrow> 'w system \<Rightarrow> 'w system" where
  "register_bot_handler bot_name h s = s\<lparr>bot_handlers := (bot_handlers s)(bot_name \<mapsto> h)\<rparr>"

text \<open>One entry of \<open>results\<close>; \<open>None\<close> for \<open>result\<close> is \<open>Json JNull\<close>.\<close>

record step_outcome =
  o_step :: nat
  o_bot_name :: "string option"
  o_capability_id :: "string option"
  o_success :: bool
  o_result :: pyval
  o_error :: "string option"

text \<open>
  The dictionary \<open>execute_command\<close> returns; a field is \<open>None\<close> when the dictionary has no
  such key.
\<close>

record exec_result =
  success :: bool
  steps_executed :: "nat option"
  total_steps :: "nat option"
  results :: "step_outcome list option"
  error :: "string option"

definition call_handler ::
  "'w behaviour \<Rightarrow> string \<Rightarrow> string option \<Rightarrow> json \<Rightarrow> json option \<Rightarrow> 'w system
     \<Rightarrow> (pyexn + step_result) \<times> 'w system" where
  "call_handler f b capability_id parameters context s =
     (case f capability_id parameters context (world s) of
        (r, w1) \<Rightarrow>
          (let s1 = s\<lparr>world := w1,
                       invocations := invocations s @ [(b, capability_id, parameters, context)]\<rparr>
           in case r of
                Inl e \<Rightarrow>
                  if catchable e
                  then (Inr \<lparr>sr_success = False, sr_result = None, sr_error = Some (str_exn e)\<rparr>, s1)
                  else (Inl e, s1)
              | Inr v \<Rightarrow> (Inr \<lparr>sr_success = True, sr_result = Some v, sr_error = None\<rparr>, s1)))"

text \<open>The entry of the trace \<open>dispatches\<close> for a call of \<open>_execute_step\<close> that has ended.\<close>

definition traced ::
  "string option \<Rightarrow> string option \<Rightarrow> json \<Rightarrow> (pyexn + step_result) \<times> 'w system
     \<Rightarrow> (pyexn + step_result) \<times> 'w system" where
  "traced bot_name capability_id parameters out =
     (case out of
        (r, s1) \<Rightarrow> (r, s1\<lparr>dispatches := dispatches s1 @ [(bot_name, capability_id, parameters, r)]\<rparr>))"

text \<open>
  \<open>_execute_step\<close>. A \<open>bot_name\<close> of \<open>None\<close> is not a key of the handler table. Its
  \<open>except Exception\<close> turns an exception of the handler call into a failure dictionary;
  an exception that clause does not catch leaves the function.
\<close>

definition execute_step ::
  "string option \<Rightarrow> string option \<Rightarrow> json \<Rightarrow> json option \<Rightarrow> 'w system
     \<Rightarrow> (pyexn + step_result) \<times> 'w system" where
  "execute_step bot_name capability_id parameters context s =
     traced bot_name capability_id parameters
     (case (case bot_name of None \<Rightarrow> None | Some b \<Rightarrow> map_option (Pair b) (bot_handlers s b)) of
        None \<Rightarrow>
          (Inr \<lparr>sr_success = False, sr_result = None,
                sr_error = Some (''No handler registered for bot \"'' @ py_str bot_name @ ''\"'')\<rparr>, s)
      | Some (b, Function f) \<Rightarrow> call_handler f b capability_id parameters context s
      | Some (b, Object f) \<Rightarrow> call_handler f b capability_id parameters context s
      | Some (b, NotCallable msg) \<Rightarrow>
          (Inr \<lparr>sr_success = False, sr_result = None, sr_error = Some msg\<rparr>, s))"

text \<open>
  The permission gate of a step: \<open>if permissions_required:\<close> and the loop over it. A
  capability read from the store carries the JSON text, a non-empty string, and the
  loop then runs over its characters.
\<close>

fun perms_truthy :: "string list column \<Rightarrow> bool" where
  "perms_truthy (Native xs) = (xs \<noteq> [])"
| "perms_truthy (Text t) = (t \<noteq> [])"

fun perm_levels :: "string list column \<Rightarrow> string list" where
  "perm_levels (Native xs) = xs"
| "perm_levels (Text t) = map (\<lambda>c. [c]) t"

definition has_permission ::
  "string \<Rightarrow> string option \<Rightarrow> string option \<Rightarrow> string list column \<Rightarrow> database \<Rightarrow> bool" where
  "has_permission user_id bot_name capability_id perms d =
     list_ex (\<lambda>perm_level. check_permission user_id bot_name capability_id perm_level d) (perm_levels perms)"

definition permission_denied ::
  "string \<Rightarrow> string option \<Rightarrow> string option \<Rightarrow> capability \<Rightarrow> database \<Rightarrow> bool" where
  "permission_denied user_id bot_name capability_id cap d =
     (perms_truthy (cap_permissions_required cap) \<and>
      \<not> has_permission user_id bot_name capability_id (cap_permissions_required cap) d)"

text \<open>How one pass through the loop body, or the loop, ends.\<close>

datatype 'a flow = Raise pyexn | Return exec_result | Continue 'a

text \<open>
  The failure exits share their shape: write the audit entry, return the failure
  dictionary. Should \<open>log_action\<close> raise, the exception leaves the exit.
\<close>

definition fail_step ::
  "string \<Rightarrow> string \<Rightarrow> string \<Rightarrow> nat \<Rightarrow> string \<Rightarrow> nat \<Rightarrow> nat \<Rightarrow> step_outcome list \<Rightarrow> 'w system
     \<Rightarrow> step_outcome list flow \<times> 'w system" where
  "fail_step name user_id username step_num error_msg executed len_steps rs s =
     (case log_action ''command_executed'' (Some user_id) (Some username)
             (Json (JDict [(''command_name'', JStr name), (''step'', JInt (int step_num)),
                           (''error'', JStr error_msg)])) False (db s) of
        (Inl e, d1) \<Rightarrow> (Raise e, s\<lparr>db := d1\<rparr>)
      | (Inr _, d1) \<Rightarrow>
          (Return \<lparr>success = False, steps_executed = Some executed, total_steps = Some len_steps,
                   results = Some rs, error = Some error_msg\<rparr>, s\<lparr>db := d1\<rparr>))"

definition quoted :: "string option \<Rightarrow> string" where
  "quoted x = [CHR 0x27] @ py_str x @ [CHR 0x27]"

text \<open>
  The body of the \<open>for i, step in enumerate(steps)\<close> loop of \<open>execute_command\<close>. The
  dispatch and the exit for a failed step stand in a \<open>try\<close> whose \<open>except Exception\<close>
  writes the audit entry and returns a failure; what that clause does not catch leaves
  \<open>execute_command\<close>.
\<close>

definition exec_body ::
  "string \<Rightarrow> string \<Rightarrow> string \<Rightarrow> json option \<Rightarrow> nat \<Rightarrow> nat \<Rightarrow> step \<Rightarrow> step_outcome list \<Rightarrow> 'w system
     \<Rightarrow> step_outcome list flow \<times> 'w system" where
  "exec_body name user_id username context len_steps i st rs s =
     (let step_num = i + 1;
          bot_name = step_bot_name st;
          capability_id = step_capability_id st;
          parameters = (case step_parameters st of None \<Rightarrow> JDict [] | Some p \<Rightarrow> p)
      in case get_capability bot_name capability_id s of
           (None, s1) \<Rightarrow>
             fail_step name user_id username step_num
               (''Step '' @ show_nat step_num @ '': Capability '' @ quoted capability_id @
                '' not found for bot '' @ quoted bot_name) i len_steps rs s1
         | (Some cap, s1) \<Rightarrow>
             if permission_denied user_id bot_name capability_id cap (db s1)
             then fail_step name user_id username step_num
                    (''Step '' @ show_nat step_num @ '': Permission denied for '' @ quoted capability_id)
                    i len_steps rs s1
             else
               (case execute_step bot_name capability_id parameters context s1 of
                  (Inl e, s2) \<Rightarrow>
                    if catchable e
                    then fail_step name user_id username step_num
                           (''Step '' @ show_nat step_num @ '' exception: '' @ str_exn e)
                           (i + 1) len_steps rs s2
                    else (Raise e, s2)
                | (Inr sr, s2) \<Rightarrow>
                    (let rs1 = rs @
                           [\<lparr>o_step = step_num, o_bot_name = bot_name, o_capability_id = capability_id,
                             o_success = sr_success sr,
                             o_result = (case sr_result sr of None \<Rightarrow> Json JNull | Some v \<Rightarrow> v),
                             o_error = sr_error sr\<rparr>]
                     in if \<not> sr_success sr
                        then (case fail_step name user_id username step_num
                                     (''Step '' @ show_nat step_num @ '' failed: '' @
                                      (case sr_error sr of None \<Rightarrow> ''Unknown error'' | Some m \<Rightarrow> m))
                                     (i + 1) len_steps rs1 s2 of
                                (Raise e, s3) \<Rightarrow>
                                  if catchable e
                                  then fail_step name user_id username step_num
                                         (''Step '' @ show_nat step_num @ '' exception: '' @ str_exn e)
                                         (i + 1) len_steps rs1 s3
                                  else (Raise e, s3)
                              | other \<Rightarrow> other)
                        else (Continue rs1, s2))))"

text \<open>The loop, from index \<open>i\<close> over the steps that remain.\<close>

fun run_steps ::
  "string \<Rightarrow> string \<Rightarrow> string \<Rightarrow> json option \<Rightarrow> nat \<Rightarrow> nat \<Rightarrow> step list \<Rightarrow> step_outcome list \<Rightarrow> 'w system
     \<Rightarrow> step_outcome list flow \<times> 'w system" where
  "run_steps name user_id username context len_steps i [] rs s = (Continue rs, s)"
| "run_steps name user_id username context len_steps i (st # rest) rs s =
     (case exec_body name user_id username context len_steps i st rs s of
        (Continue rs1, s1) \<Rightarrow> run_steps name user_id username context len_steps (i + 1) rest rs1 s1
      | (Raise e, s1) \<Rightarrow> (Raise e, s1)
      | (Return r, s1) \<Rightarrow> (Return r, s1))"

text \<open>
  The \<open>details\<close> of the success entry hold \<open>results\<close>, hence every handler's return
  value; the dictionary is serialisable only if each of them is, and \<open>json.dumps\<close>
  complains about the first that is not.
\<close>

fun first_unserializable :: "step_outcome list \<Rightarrow> string option" where
  "first_unserializable [] = None"
| "first_unserializable (o1 # rest) =
     (case o_result o1 of Unserializable t \<Rightarrow> Some t | Json j \<Rightarrow> first_unserializable rest)"

fun outcome_json :: "step_outcome \<Rightarrow> json option" where
  "outcome_json o1 =
     (case o_result o1 of
        Unserializable t \<Rightarrow> None
      | Json j \<Rightarrow>
          Some (JDict [(''step'', JInt (int (o_step o1))), (''bot_name'', opt_str (o_bot_name o1)),
                       (''capability_id'', opt_str (o_capability_id o1)),
                       (''success'', JBool (o_success o1)), (''result'', j),
                       (''error'', opt_str (o_error o1))]))"

definition success_details :: "string \<Rightarrow> nat \<Rightarrow> step_outcome list \<Rightarrow> pyval" where
  "success_details name n rs =
     (case first_unserializable rs of
        Some t \<Rightarrow> Unserializable t
      | None \<Rightarrow>
          Json (JDict [(''command_name'', JStr name), (''steps_executed'', JInt (int n)),
                       (''results'', JList (map (\<lambda>o1. the (outcome_json o1)) rs))]))"

definition execute_command ::
  "string \<Rightarrow> string \<Rightarrow> string \<Rightarrow> json option \<Rightarrow> 'w system \<Rightarrow> (pyexn + exec_result) \<times> 'w system" where
  "execute_command name user_id username context s =
     (case get_custom_command name (db s) of
        None \<Rightarrow>
          (case log_action ''command_executed'' (Some user_id) (Some username)
                  (Json (JDict [(''command_name'', JStr name), (''error'', JStr ''Command not found'')]))
                  False (db s) of
             (Inl e, d1) \<Rightarrow> (Inl e, s\<lparr>db := d1\<rparr>)
           | (Inr _, d1) \<Rightarrow>
               (Inr \<lparr>success = False, steps_executed = None, total_steps = None, results = None,
                     error = Some (''Command \"'' @ name @ ''\" not found'')\<rparr>, s\<lparr>db := d1\<rparr>))
      | Some command \<Rightarrow>
          (case run_steps name user_id username context (length (steps command)) 0 (steps command) [] s of
             (Raise e, s1) \<Rightarrow> (Inl e, s1)
           | (Return r, s1) \<Rightarrow> (Inr r, s1)
           | (Continue rs, s1) \<Rightarrow>
               (case log_action ''command_executed'' (Some user_id) (Some username)
                       (success_details name (length (steps command)) rs) True (db s1) of
                  (Inl e, d1) \<Rightarrow> (Inl e, s1\<lparr>db := d1\<rparr>)
                | (Inr _, d1) \<Rightarrow>
                    (Inr \<lparr>success = True, steps_executed = Some (length (steps command)),
                          total_steps = Some (length (steps command)), results = Some rs,
                          error = None\<rparr>, s1\<lparr>db := d1\<rparr>))))"

section \<open>Notions used in the statements and proofs\<close>

text \<open>The parameters a step passes on: \<open>step.get('parameters', {})\<close>.\<close>

definition step_params :: "step \<Rightarrow> json" where
  "step_params st = (case step_parameters st of None \<Rightarrow> JDict [] | Some p \<Rightarrow> p)"

text \<open>The entry appended to \<open>results\<close> for step number \<open>k\<close> after its dispatch.\<close>

definition outcome_of :: "nat \<Rightarrow> step \<Rightarrow> step_result \<Rightarrow> step_outcome" where
  "outcome_of k st sr =
     \<lparr>o_step = k, o_bot_name = step_bot_name st, o_capability_id = step_capability_id st,
      o_success = sr_success sr,
      o_result = (case sr_result sr of None \<Rightarrow> Json JNull | Some v \<Rightarrow> v),
      o_error = sr_error sr\<rparr>"

text \<open>The audit row of a failed execution, and the state after writing a row.\<close>

definition failure_entry :: "string \<Rightarrow> string \<Rightarrow> string \<Rightarrow> nat \<Rightarrow> string \<Rightarrow> audit_row" where
  "failure_entry name user_id username step_num error_msg =
     \<lparr>action_type = ''command_executed'', audit_user_id = Some user_id, audit_username = Some username,
      details = json_dumps (JDict [(''command_name'', JStr name), (''step'', JInt (int step_num)),
                                   (''error'', JStr error_msg)]),
      audit_success = False\<rparr>"

definition log_failure :: "audit_row \<Rightarrow> 'w system \<Rightarrow> 'w system" where
  "log_failure row s = s\<lparr>db := (db s)\<lparr>audit_logs := audit_logs (db s) @ [row]\<rparr>\<rparr>"

text \<open>The handler calls made between two states, read off the trace.\<close>

definition new_invocations ::
  "'w system \<Rightarrow> 'w system \<Rightarrow> (string \<times> string option \<times> json \<times> json option) list" where
  "new_invocations s s' = drop (length (invocations s)) (invocations s')"








section \<open>An example installation\<close>

text \<open>
  Four bots. The handler of \<open>alpha\<close> and \<open>beta\<close> is a function that raises on the
  capability \<open>crash\<close> and returns a value otherwise; \<open>gamma\<close> has the mock handler; the
  handler of \<open>omega\<close> calls \<open>sys.exit('shutting down')\<close>, which raises \<open>SystemExit\<close>.
  Capability \<open>secure\<close> of \<open>alpha\<close> requires \<open>admin\<close>, and no permission is granted.
\<close>

definition quitter :: "unit behaviour" where
  "quitter capability_id parameters context w = (Inl (BaseException ''shutting down''), w)"

definition flaky :: "unit behaviour" where
  "flaky capability_id parameters context w =
     (if capability_id = Some ''crash'' then (Inl (Exception ''boom''), w)
      else (Inr (Json (JStr ''done'')), w))"

definition mk_step :: "string \<Rightarrow> string \<Rightarrow> step" where
  "mk_step b c = \<lparr>step_bot_name = Some b, step_capability_id = Some c, step_parameters = None\<rparr>"

definition example_capabilities :: "(string \<times> string \<times> string list option) list" where
  "example_capabilities =
     [(''alpha'', ''ping'', None), (''alpha'', ''crash'', None), (''alpha'', ''pong'', None),
      (''beta'', ''crash'', None), (''gamma'', ''echo'', None), (''alpha'', ''secure'', Some [''admin'']),
      (''omega'', ''quit'', None)]"

definition example_commands :: "(string \<times> step list) list" where
  "example_commands =
     [(''trio'', [mk_step ''alpha'' ''ping'', mk_step ''beta'' ''crash'', mk_step ''gamma'' ''echo'']),
      (''same_bot'', [mk_step ''alpha'' ''ping'', mk_step ''alpha'' ''crash'', mk_step ''alpha'' ''pong'']),
      (''ghost'', [mk_step ''alpha'' ''ping'', mk_step ''delta'' ''none'']),
      (''guarded'', [mk_step ''alpha'' ''secure'']),
      (''pair'', [mk_step ''alpha'' ''ping'', mk_step ''gamma'' ''echo'']),
      (''halt'', [mk_step ''alpha'' ''ping'', mk_step ''omega'' ''quit'', mk_step ''gamma'' ''echo''])]"

definition example_registry :: "unit system" where
  "example_registry =
     foldl (\<lambda>s (b, c, perms). snd (register_capability b c ''a capability'' None perms s))
       (init_system ()) example_capabilities"

definition example_handlers :: "unit system \<Rightarrow> unit system" where
  "example_handlers s =
     register_bot_handler ''omega'' (Function quitter)
       (register_bot_handler ''gamma'' (MockBotHandler ''gamma'')
         (register_bot_handler ''beta'' (Function flaky)
           (register_bot_handler ''alpha'' (Function flaky) s)))"

definition example_system :: "unit system" where
  "example_system =
     (example_handlers example_registry)
       \<lparr>db := foldl (\<lambda>d (name, stps). snd (save_custom_command name ''a command'' stps ''u0'' d))
                 (db example_registry) example_commands\<rparr>"

text \<open>The example after a dispatch of \<open>ping\<close> to \<open>alpha\<close>, the first step of its commands.\<close>

definition after_ping :: "unit system" where
  "after_ping =
     example_system
       \<lparr>world := (),
        invocations := [(''alpha'', Some ''ping'', JDict [], None)],
        dispatches := [(Some ''alpha'', Some ''ping'', JDict [],
                        Inr \<lparr>sr_success = True, sr_result = Some (Json (JStr ''done'')),
                             sr_error = None\<rparr>)]\<rparr>"

text \<open>
  A service reached over HTTP: one capability, a command that calls it twice, and the
  network given by \<open>post\<close>. Two networks: one refuses every connection, one answers
  every request with status 500.
\<close>

definition refusing_post :: "unit http_post" where
  "refusing_post url payload headers t w = (RequestFailed ''Connection refused'', w)"

definition error_post :: "unit http_post" where
  "error_post url payload headers t w =
     (Response 500 ''Internal Server Error'' (Inr (JDict [])), w)"

definition http_system :: "unit http_post \<Rightarrow> unit system" where
  "http_system post =
     (let s1 = snd (register_capability ''svc'' ''run'' ''a remote capability'' None None (init_system ()));
          s2 = register_bot_handler ''svc''
                 (HTTPBotHandler post ''svc''
                    \<lparr>base_url = ''http://svc.local/'', api_key = None, timeout = 10\<rparr>) s1
      in s2\<lparr>db := snd (save_custom_command ''twice'' ''a command''
                         [mk_step ''svc'' ''run'', mk_step ''svc'' ''run''] ''u0'' (db s2))\<rparr>)"

section \<open>Facts about the store and one pass of the executor loop\<close>

lemma levels_read_execute: "\<not> permission_level_allows ''read'' ''execute''"
  by (simp add: permission_level_allows_def levels_get_def)

lemma check_permission_capability_tier:
  assumes "fetchone (filter (capability_tier u b c) (permissions d)) = Some r"
  shows "check_permission u b c required d = permission_level_allows (permission_level r) required"
  using assms by (simp add: check_permission_def)

lemma log_action_Json:
  "log_action a u n (Json j) ok d =
     (Inr (), d\<lparr>audit_logs := audit_logs d @
        [\<lparr>action_type = a, audit_user_id = u, audit_username = n,
          details = json_dumps (if truthy j then j else JDict []), audit_success = ok\<rparr>]\<rparr>)"
  by (simp add: log_action_def dumps_details_def)

lemma fail_step_eq:
  "fail_step name u un k msg ex n rs s =
     (Return \<lparr>success = False, steps_executed = Some ex, total_steps = Some n,
              results = Some rs, error = Some msg\<rparr>,
      log_failure (failure_entry name u un k msg) s)"
  by (simp add: fail_step_def log_action_Json failure_entry_def log_failure_def)

lemma fresh_filter:
  assumes "\<not> list_ex P xs"
  shows "filter P xs = []"
  using assms by (induction xs) auto

lemma pair_collapse: "fst p = a \<Longrightarrow> p = (a, snd p)"
  by (cases p) simp

text \<open>
  \<open>_execute_step\<close> catches what \<open>except Exception\<close> catches: an exception that leaves it is
  of the other kind, so the \<open>except Exception\<close> around its call in \<open>execute_command\<close> is
  never entered from it.
\<close>

lemma call_handler_raises:
  assumes "call_handler f b c p x s = (Inl e, s1)"
  shows "\<not> catchable e"
  using assms by (auto simp: call_handler_def Let_def split: prod.splits sum.splits if_splits)

lemma execute_step_raises:
  assumes "execute_step b c p x s = (Inl e, s1)"
  shows "\<not> catchable e"
  using assms
  by (auto simp: execute_step_def traced_def split: option.splits handler.splits prod.splits
           dest: call_handler_raises)



text \<open>
  The five ways one pass through the loop body ends: the capability does not resolve,
  permission is denied, the dispatch fails, the dispatch lets an exception pass, or the
  step is done and the loop goes on.
\<close>

lemma exec_body_unresolved:
  assumes "get_capability (step_bot_name st) (step_capability_id st) s = (None, s1)"
  shows "\<exists>msg. exec_body name u un x n i st rs s =
     (Return \<lparr>success = False, steps_executed = Some i, total_steps = Some n,
              results = Some rs, error = Some msg\<rparr>,
      log_failure (failure_entry name u un (i + 1) msg) s1)"
  using assms by (simp add: exec_body_def fail_step_eq Let_def)

lemma exec_body_denied:
  assumes "get_capability (step_bot_name st) (step_capability_id st) s = (Some cap, s1)"
    and "permission_denied u (step_bot_name st) (step_capability_id st) cap (db s1)"
  shows "\<exists>msg. exec_body name u un x n i st rs s =
     (Return \<lparr>success = False, steps_executed = Some i, total_steps = Some n,
              results = Some rs, error = Some msg\<rparr>,
      log_failure (failure_entry name u un (i + 1) msg) s1)"
  using assms by (simp add: exec_body_def fail_step_eq Let_def)

lemma exec_body_dispatch_failed:
  assumes "get_capability (step_bot_name st) (step_capability_id st) s = (Some cap, s1)"
    and "\<not> permission_denied u (step_bot_name st) (step_capability_id st) cap (db s1)"
    and "execute_step (step_bot_name st) (step_capability_id st) (step_params st) x s1 = (Inr sr, s2)"
    and "\<not> sr_success sr"
  shows "exec_body name u un x n i st rs s =
     (Return \<lparr>success = False, steps_executed = Some (i + 1), total_steps = Some n,
              results = Some (rs @ [outcome_of (i + 1) st sr]),
              error = Some (''Step '' @ show_nat (i + 1) @ '' failed: '' @
                            (case sr_error sr of None \<Rightarrow> ''Unknown error'' | Some m \<Rightarrow> m))\<rparr>,
      log_failure (failure_entry name u un (i + 1)
         (''Step '' @ show_nat (i + 1) @ '' failed: '' @
                            (case sr_error sr of None \<Rightarrow> ''Unknown error'' | Some m \<Rightarrow> m))) s2)"
  using assms by (simp add: exec_body_def fail_step_eq Let_def outcome_of_def step_params_def)

lemma exec_body_dispatched:
  assumes "get_capability (step_bot_name st) (step_capability_id st) s = (Some cap, s1)"
    and "\<not> permission_denied u (step_bot_name st) (step_capability_id st) cap (db s1)"
    and "execute_step (step_bot_name st) (step_capability_id st) (step_params st) x s1 = (Inr sr, s2)"
    and "sr_success sr"
  shows "exec_body name u un x n i st rs s = (Continue (rs @ [outcome_of (i + 1) st sr]), s2)"
  using assms by (simp add: exec_body_def fail_step_eq Let_def outcome_of_def step_params_def)

lemma exec_body_raised:
  assumes "get_capability (step_bot_name st) (step_capability_id st) s = (Some cap, s1)"
    and "\<not> permission_denied u (step_bot_name st) (step_capability_id st) cap (db s1)"
    and "execute_step (step_bot_name st) (step_capability_id st) (step_params st) x s1 = (Inl e, s2)"
  shows "exec_body name u un x n i st rs s = (Raise e, s2)"
  using assms execute_step_raises [OF assms(3)]
  by (simp add: exec_body_def Let_def step_params_def)

lemma exec_body_cases:
  obtains
    (unresolved) s1 msg where
      "get_capability (step_bot_name st) (step_capability_id st) s = (None, s1)"
      "exec_body name u un x n i st rs s =
         (Return \<lparr>success = False, steps_executed = Some i, total_steps = Some n,
                  results = Some rs, error = Some msg\<rparr>,
          log_failure (failure_entry name u un (i + 1) msg) s1)"
  | (denied) cap s1 msg where
      "get_capability (step_bot_name st) (step_capability_id st) s = (Some cap, s1)"
      "permission_denied u (step_bot_name st) (step_capability_id st) cap (db s1)"
      "exec_body name u un x n i st rs s =
         (Return \<lparr>success = False, steps_executed = Some i, total_steps = Some n,
                  results = Some rs, error = Some msg\<rparr>,
          log_failure (failure_entry name u un (i + 1) msg) s1)"
  | (failed) cap s1 sr s2 msg where
      "get_capability (step_bot_name st) (step_capability_id st) s = (Some cap, s1)"
      "\<not> permission_denied u (step_bot_name st) (step_capability_id st) cap (db s1)"
      "execute_step (step_bot_name st) (step_capability_id st) (step_params st) x s1 = (Inr sr, s2)"
      "\<not> sr_success sr"
      "exec_body name u un x n i st rs s =
         (Return \<lparr>success = False, steps_executed = Some (i + 1), total_steps = Some n,
                  results = Some (rs @ [outcome_of (i + 1) st sr]), error = Some msg\<rparr>,
          log_failure (failure_entry name u un (i + 1) msg) s2)"
  | (dispatched) cap s1 sr s2 where
      "get_capability (step_bot_name st) (step_capability_id st) s = (Some cap, s1)"
      "\<not> permission_denied u (step_bot_name st) (step_capability_id st) cap (db s1)"
      "execute_step (step_bot_name st) (step_capability_id st) (step_params st) x s1 = (Inr sr, s2)"
      "sr_success sr"
      "exec_body name u un x n i st rs s = (Continue (rs @ [outcome_of (i + 1) st sr]), s2)"
  | (raised) cap s1 e s2 where
      "get_capability (step_bot_name st) (step_capability_id st) s = (Some cap, s1)"
      "\<not> permission_denied u (step_bot_name st) (step_capability_id st) cap (db s1)"
      "execute_step (step_bot_name st) (step_capability_id st) (step_params st) x s1 = (Inl e, s2)"
      "\<not> catchable e"
      "exec_body name u un x n i st rs s = (Raise e, s2)"
proof -
  obtain c s1 where g: "get_capability (step_bot_name st) (step_capability_id st) s = (c, s1)"
    by (cases "get_capability (step_bot_name st) (step_capability_id st) s")
  show thesis
  proof (cases c)
    case None
    with g exec_body_unresolved [of st s s1 name u un x n i rs] unresolved show thesis by blast
  next
    case (Some cap)
    note g' = g [unfolded Some]
    show thesis
    proof (cases "permission_denied u (step_bot_name st) (step_capability_id st) cap (db s1)")
      case True
      with g' exec_body_denied [of st s cap s1 u name un x n i rs] denied show thesis by blast
    next
      case False
      obtain out s2 where
        e: "execute_step (step_bot_name st) (step_capability_id st) (step_params st) x s1 = (out, s2)"
        by (cases "execute_step (step_bot_name st) (step_capability_id st) (step_params st) x s1")
      show thesis
      proof (cases out)
        case (Inl ex)
        note e' = e [unfolded Inl]
        from exec_body_raised [OF g' False e'] execute_step_raises [OF e'] g' False e' raised
        show thesis by blast
      next
        case (Inr sr)
        note e' = e [unfolded Inr]
        show thesis
        proof (cases "sr_success sr")
          case True
          from exec_body_dispatched [OF g' False e' True] g' False e' True dispatched
          show thesis by blast
        next
          case f: False
          from exec_body_dispatch_failed [OF g' False e' f] g' False e' f failed
          show thesis by blast
        qed
      qed
    qed
  qed
qed

lemma run_steps_append:
  "run_steps name u un x n i (pre @ rest) rs s =
     (case run_steps name u un x n i pre rs s of
        (Continue rs1, s1) \<Rightarrow> run_steps name u un x n (i + length pre) rest rs1 s1
      | (Raise e, s1) \<Rightarrow> (Raise e, s1)
      | (Return r, s1) \<Rightarrow> (Return r, s1))"
  by (induction pre arbitrary: i rs s) (auto split: prod.splits flow.splits)

lemma steps_split:
  assumes "1 \<le> i" "i \<le> length xs"
  shows "xs = take (i - 1) xs @ (xs ! (i - 1)) # drop i xs"
proof -
  from assms have "i - 1 < length xs" by simp
  from id_take_nth_drop [OF this] assms show ?thesis by simp
qed

lemma run_steps_at:
  assumes i: "1 \<le> i" "i \<le> length sts"
    and pre: "run_steps name u un x n 0 (take (i - 1) sts) [] s = (Continue rs, s1)"
  shows "run_steps name u un x n 0 sts [] s =
     (case exec_body name u un x n (i - 1) (sts ! (i - 1)) rs s1 of
        (Continue rs1, s2) \<Rightarrow> run_steps name u un x n i (drop i sts) rs1 s2
      | (Raise e, s2) \<Rightarrow> (Raise e, s2)
      | (Return r, s2) \<Rightarrow> (Return r, s2))"
proof -
  have len: "length (take (i - 1) sts) = i - 1" using i by simp
  have "run_steps name u un x n 0 sts [] s =
        run_steps name u un x n 0 (take (i - 1) sts @ (sts ! (i - 1)) # drop i sts) [] s"
    using steps_split [OF i] by simp
  also have "\<dots> = run_steps name u un x n (i - 1) ((sts ! (i - 1)) # drop i sts) rs s1"
    by (simp only: run_steps_append pre len) simp
  finally show ?thesis using i by (simp add: Suc_diff_Suc [symmetric] cong: prod.case_cong flow.case_cong)
qed

lemma execute_command_stops:
  assumes cmd: "get_custom_command name (db s) = Some command"
    and i: "1 \<le> i" "i \<le> length (steps command)"
    and pre: "run_steps name u un x (length (steps command)) 0 (take (i - 1) (steps command)) [] s
                = (Continue rs, s1)"
    and body: "exec_body name u un x (length (steps command)) (i - 1) (steps command ! (i - 1)) rs s1
                = (Return r, s2)"
  shows "execute_command name u un x s = (Inr r, s2)"
  using cmd run_steps_at [OF i pre] body by (simp add: execute_command_def)

lemma execute_command_raises:
  assumes cmd: "get_custom_command name (db s) = Some command"
    and i: "1 \<le> i" "i \<le> length (steps command)"
    and pre: "run_steps name u un x (length (steps command)) 0 (take (i - 1) (steps command)) [] s
                = (Continue rs, s1)"
    and body: "exec_body name u un x (length (steps command)) (i - 1) (steps command ! (i - 1)) rs s1
                = (Raise e, s2)"
  shows "execute_command name u un x s = (Inl e, s2)"
  using cmd run_steps_at [OF i pre] body by (simp add: execute_command_def)

text \<open>
  Handler calls: a pass through the loop body makes at most one, to the handler of the
  step's bot; looking a capability up and writing the audit log make none.
\<close>

lemma call_handler_invocations:
  assumes "call_handler f b c p x s = (r, s')"
  shows "invocations s' = invocations s @ [(b, c, p, x)]"
  using assms by (auto simp: call_handler_def Let_def split: prod.splits sum.splits if_splits)

lemma traced_invocations:
  assumes "traced b c p out = (r, s')"
  shows "\<exists>s1. out = (r, s1) \<and> invocations s' = invocations s1"
  using assms by (auto simp: traced_def split: prod.splits)

lemma execute_step_invocations:
  assumes "execute_step b c p x s = (r, s')"
  shows "\<exists>calls. invocations s' = invocations s @ calls \<and> length calls \<le> 1 \<and>
           (\<forall>call \<in> set calls. Some (fst call) = b)"
proof (cases "case b of None \<Rightarrow> None | Some b' \<Rightarrow> map_option (Pair b') (bot_handlers s b')")
  case None
  with assms show ?thesis by (auto simp: execute_step_def traced_def)
next
  case (Some bh)
  obtain b' h where bh: "bh = (b', h)" by (cases bh)
  from Some bh have b: "b = Some b'" by (auto split: option.splits)
  show ?thesis
  proof (cases h)
    case (Function f)
    with assms Some bh have "traced b c p (call_handler f b' c p x s) = (r, s')"
      by (simp add: execute_step_def)
    from traced_invocations [OF this] obtain s1 where
      "call_handler f b' c p x s = (r, s1)" "invocations s' = invocations s1" by blast
    with call_handler_invocations [of f b' c p x s r s1] b show ?thesis by simp
  next
    case (Object f)
    with assms Some bh have "traced b c p (call_handler f b' c p x s) = (r, s')"
      by (simp add: execute_step_def)
    from traced_invocations [OF this] obtain s1 where
      "call_handler f b' c p x s = (r, s1)" "invocations s' = invocations s1" by blast
    with call_handler_invocations [of f b' c p x s r s1] b show ?thesis by simp
  next
    case (NotCallable msg)
    with assms Some bh show ?thesis by (auto simp: execute_step_def traced_def)
  qed
qed

lemma get_capability_invocations:
  assumes "get_capability b c s = (r, s')"
  shows "invocations s' = invocations s"
  using assms by (auto simp: get_capability_def split: option.splits)

lemma log_failure_invocations: "invocations (log_failure row s) = invocations s"
  by (simp add: log_failure_def)

lemma exec_body_continue:
  assumes "exec_body name u un x n i st rs s = (Continue rs1, s1)"
  shows "\<exists>sr calls. rs1 = rs @ [outcome_of (i + 1) st sr] \<and> sr_success sr \<and>
           invocations s1 = invocations s @ calls \<and> length calls \<le> 1 \<and>
           (\<forall>call \<in> set calls. Some (fst call) = step_bot_name st)"
proof (cases rule: exec_body_cases [of st s name u un x n i rs])
  case (dispatched cap s1' sr s2)
  from dispatched(5) assms have eq: "rs1 = rs @ [outcome_of (i + 1) st sr]" "s1 = s2" by simp_all
  from execute_step_invocations [OF dispatched(3)] get_capability_invocations [OF dispatched(1)]
  obtain calls where "invocations s2 = invocations s @ calls" "length calls \<le> 1"
    "\<forall>call \<in> set calls. Some (fst call) = step_bot_name st" by auto
  with eq dispatched(4) show ?thesis by blast
qed (use assms in simp_all)














text \<open>
  A command that is not stored, or is disabled: one audit row, and a dictionary with
  \<open>success\<close> and \<open>error\<close> only.
\<close>

lemma execute_command_not_found:
  assumes "get_custom_command name (db s) = None"
  shows "execute_command name u un x s =
     (Inr \<lparr>success = False, steps_executed = None, total_steps = None, results = None,
           error = Some (''Command \"'' @ name @ ''\" not found'')\<rparr>,
      s\<lparr>db := (db s)\<lparr>audit_logs := audit_logs (db s) @
         [\<lparr>action_type = ''command_executed'', audit_user_id = Some u, audit_username = Some un,
           details = json_dumps (JDict [(''command_name'', JStr name), (''error'', JStr ''Command not found'')]),
           audit_success = False\<rparr>]\<rparr>\<rparr>)"
  using assms by (simp add: execute_command_def log_action_Json)

text \<open>
  The HTTP handler never raises: whatever the network does, \<open>_execute_step\<close> reports
  the call as successful.
\<close>

lemma http_step_reported_successful:
  assumes "bot_handlers s b = Some (HTTPBotHandler post b config)"
  shows "\<exists>sr s1. execute_step (Some b) c p x s = (Inr sr, s1) \<and> sr_success sr"
  using assms
  by (auto simp: execute_step_def traced_def HTTPBotHandler_def call_handler_def Let_def
           split: prod.splits http_reply.splits option.splits sum.splits)

section \<open>The example installation, evaluated\<close>

lemma example_registry_cache:
  "capabilities_cache example_registry =
     [''alpha:ping'' \<mapsto> \<lparr>cap_bot_name = ''alpha'', cap_capability_id = ''ping'',
         cap_description = ''a capability'', cap_parameters = Native (JDict []),
         cap_permissions_required = Native []\<rparr>,
      ''alpha:crash'' \<mapsto> \<lparr>cap_bot_name = ''alpha'', cap_capability_id = ''crash'',
         cap_description = ''a capability'', cap_parameters = Native (JDict []),
         cap_permissions_required = Native []\<rparr>,
      ''alpha:pong'' \<mapsto> \<lparr>cap_bot_name = ''alpha'', cap_capability_id = ''pong'',
         cap_description = ''a capability'', cap_parameters = Native (JDict []),
         cap_permissions_required = Native []\<rparr>,
      ''beta:crash'' \<mapsto> \<lparr>cap_bot_name = ''beta'', cap_capability_id = ''crash'',
         cap_description = ''a capability'', cap_parameters = Native (JDict []),
         cap_permissions_required = Native []\<rparr>,
      ''gamma:echo'' \<mapsto> \<lparr>cap_bot_name = ''gamma'', cap_capability_id = ''echo'',
         cap_description = ''a capability'', cap_parameters = Native (JDict []),
         cap_permissions_required = Native []\<rparr>,
      ''alpha:secure'' \<mapsto> \<lparr>cap_bot_name = ''alpha'', cap_capability_id = ''secure'',
         cap_description = ''a capability'', cap_parameters = Native (JDict []),
         cap_permissions_required = Native [''admin'']\<rparr>,
      ''omega:quit'' \<mapsto> \<lparr>cap_bot_name = ''omega'', cap_capability_id = ''quit'',
         cap_description = ''a capability'', cap_parameters = Native (JDict []),
         cap_permissions_required = Native []\<rparr>]"
  by (simp add: example_registry_def example_capabilities_def register_capability_def
      db_register_capability_def init_system_def init_db_def Let_def log_action_Json cache_key_def
      or_empty_dict_def or_empty_list_def)

lemma example_registry_store:
  "capabilities (db example_registry) =
     map (\<lambda>(b, c, perms).
            \<lparr>row_bot_name = b, row_capability_id = c, row_description = ''a capability'',
             row_parameters = json_dumps (JDict []),
             row_permissions_required = json_dumps (JList (map JStr (or_empty_list perms)))\<rparr>)
         example_capabilities"
  "custom_commands (db example_registry) = []"
  "permissions (db example_registry) = []"
  by (simp_all add: example_registry_def example_capabilities_def register_capability_def
      db_register_capability_def init_system_def init_db_def Let_def log_action_Json
      or_empty_dict_def or_empty_list_def)

lemma example_registry_rest:
  "bot_handlers example_registry = Map.empty"
  "world example_registry = ()"
  "invocations example_registry = []"
  "dispatches example_registry = []"
  by (simp_all add: example_registry_def example_capabilities_def register_capability_def
      db_register_capability_def init_system_def init_db_def Let_def log_action_Json)

lemma example_system_cache: "capabilities_cache example_system = capabilities_cache example_registry"
  by (simp add: example_system_def example_handlers_def register_bot_handler_def)

lemma example_system_handlers:
  "bot_handlers example_system =
     [''alpha'' \<mapsto> Function flaky, ''beta'' \<mapsto> Function flaky, ''gamma'' \<mapsto> MockBotHandler ''gamma'',
      ''omega'' \<mapsto> Function quitter]"
  by (simp add: example_system_def example_handlers_def register_bot_handler_def example_registry_rest)

lemma example_system_rest:
  "world example_system = ()"
  "invocations example_system = []"
  "dispatches example_system = []"
  by (simp_all add: example_system_def example_handlers_def register_bot_handler_def example_registry_rest)

lemma save_commands_other:
  "capabilities (foldl (\<lambda>d (name, stps). snd (save_custom_command name dsc stps who d)) d0 cmds)
     = capabilities d0"
  "permissions (foldl (\<lambda>d (name, stps). snd (save_custom_command name dsc stps who d)) d0 cmds)
     = permissions d0"
  by (induction cmds arbitrary: d0) (auto simp: save_custom_command_def)

lemma example_system_store:
  "capabilities (db example_system) = capabilities (db example_registry)"
  "permissions (db example_system) = []"
  "custom_commands (db example_system) =
     map (\<lambda>(name, stps). \<lparr>command_name = name, command_description = ''a command'', steps = stps,
                created_by = ''u0'', enabled = True\<rparr>) example_commands"
    apply (simp add: example_system_def save_commands_other)
   apply (simp add: example_system_def save_commands_other example_registry_store)
  apply (simp add: example_system_def example_commands_def save_custom_command_def example_registry_store)
  done

lemmas example_facts = example_system_cache example_registry_cache example_system_handlers
  example_system_rest example_system_store example_registry_store example_capabilities_def
  example_commands_def mk_step_def cache_key_def log_action_Json Let_def or_empty_list_def

lemmas run_defs = get_custom_command_def fetchone_def execute_command_def exec_body_def get_capability_def
     permission_denied_def has_permission_def execute_step_def traced_def call_handler_def flaky_def
     quitter_def fail_step_def
     MockBotHandler_def show_nat.simps digit_char_def quoted_def db_get_capability_def sql_eq_def
     check_permission_def

lemma after_ping_facts:
  "capabilities_cache after_ping = capabilities_cache example_system"
  "bot_handlers after_ping = bot_handlers example_system"
  "db after_ping = db example_system"
  "world after_ping = ()"
  "invocations after_ping = [(''alpha'', Some ''ping'', JDict [], None)]"
  by (simp_all add: after_ping_def)

lemma example_first_step:
  "exec_body name u un None n 0 (mk_step ''alpha'' ''ping'') [] example_system =
     (Continue [\<lparr>o_step = 1, o_bot_name = Some ''alpha'', o_capability_id = Some ''ping'',
                  o_success = True, o_result = Json (JStr ''done''), o_error = None\<rparr>],
      after_ping)"
  by (simp add: example_facts run_defs after_ping_def)


section \<open>The claims\<close>

subsection \<open>C1: permission precedence\<close>

text \<open>
  C1, as stated, fails: \<open>grant_permission\<close> inserts without any uniqueness check, and
  \<open>fetchone\<close> reads the first capability-scoped row. A user who was granted \<open>admin\<close> on the
  capability, then \<open>read\<close> on the capability, then \<open>admin\<close> on the bot holds both grants
  the claim names, and the check for \<open>execute\<close> succeeds.
\<close>

theorem check_permission_read_shadow_counterexample:
  "holds_grant ''u1'' (Some ''weather'') (Some ''forecast'') ''read''
     (grant_permission ''u1'' ''admin'' (Some ''weather'') None
       (grant_permission ''u1'' ''read'' (Some ''weather'') (Some ''forecast'')
         (grant_permission ''u1'' ''admin'' (Some ''weather'') (Some ''forecast'') init_db)))
   \<and> holds_grant ''u1'' (Some ''weather'') None ''admin''
     (grant_permission ''u1'' ''admin'' (Some ''weather'') None
       (grant_permission ''u1'' ''read'' (Some ''weather'') (Some ''forecast'')
         (grant_permission ''u1'' ''admin'' (Some ''weather'') (Some ''forecast'') init_db)))
   \<and> check_permission ''u1'' (Some ''weather'') (Some ''forecast'') ''execute''
     (grant_permission ''u1'' ''admin'' (Some ''weather'') None
       (grant_permission ''u1'' ''read'' (Some ''weather'') (Some ''forecast'')
         (grant_permission ''u1'' ''admin'' (Some ''weather'') (Some ''forecast'') init_db)))"
  by (simp add: holds_grant_def grant_permission_def init_db_def check_permission_def
      fetchone_def capability_tier_def sql_eq_def permission_level_allows_def levels_get_def)

text \<open>
  C1 (amended): when the first stored capability-scoped grant of the user for
  \<open>(bot_name, capability_id)\<close> has level \<open>read\<close> (in particular when the \<open>read\<close> grant is the
  user's only grant for that pair) and the user also holds a bot-wide \<open>admin\<close> grant for
  the same bot, \<open>check_permission(user, bot_name, capability_id, 'execute')\<close> is false:
  the capability tier is read first and its first row decides alone, with no fallback
  to the bot-wide or global tier.
\<close>

theorem check_permission_capability_read_wins:
  assumes "fetchone (filter (capability_tier u (Some b) (Some c)) (permissions d)) = Some r"
    and "permission_level r = ''read''"
    and "holds_grant u (Some b) None ''admin'' d"
  shows "check_permission u (Some b) (Some c) ''execute'' d = False"
  using assms(1,2) levels_read_execute by (simp add: check_permission_def)

text \<open>
  The hypotheses of C1 (amended) hold for a user granted \<open>read\<close> on the capability and
  then \<open>admin\<close> on the bot.
\<close>

theorem check_permission_capability_read_wins_witness:
  "holds_grant ''u1'' (Some ''weather'') (Some ''forecast'') ''read''
     (grant_permission ''u1'' ''admin'' (Some ''weather'') None
       (grant_permission ''u1'' ''read'' (Some ''weather'') (Some ''forecast'') init_db))
   \<and> holds_grant ''u1'' (Some ''weather'') None ''admin''
     (grant_permission ''u1'' ''admin'' (Some ''weather'') None
       (grant_permission ''u1'' ''read'' (Some ''weather'') (Some ''forecast'') init_db))
   \<and> check_permission ''u1'' (Some ''weather'') (Some ''forecast'') ''execute''
     (grant_permission ''u1'' ''admin'' (Some ''weather'') None
       (grant_permission ''u1'' ''read'' (Some ''weather'') (Some ''forecast'') init_db)) = False"
proof -
  let ?d = "grant_permission ''u1'' ''admin'' (Some ''weather'') None
       (grant_permission ''u1'' ''read'' (Some ''weather'') (Some ''forecast'') init_db)"
  let ?r = "\<lparr>perm_user_id = ''u1'', perm_bot_name = Some ''weather'',
             perm_capability_id = Some ''forecast'', permission_level = ''read''\<rparr>"
  have h1: "fetchone (filter (capability_tier ''u1'' (Some ''weather'') (Some ''forecast'')) (permissions ?d)) = Some ?r"
    by (simp add: grant_permission_def init_db_def fetchone_def capability_tier_def sql_eq_def)
  have h2: "permission_level ?r = ''read''" by simp
  have h3: "holds_grant ''u1'' (Some ''weather'') None ''admin'' ?d"
    by (simp add: holds_grant_def grant_permission_def init_db_def)
  have h4: "holds_grant ''u1'' (Some ''weather'') (Some ''forecast'') ''read'' ?d"
    by (simp add: holds_grant_def grant_permission_def init_db_def)
  from check_permission_capability_read_wins [OF h1 h2 h3] h3 h4 show ?thesis by simp
qed

subsection \<open>C2: a failed HTTP call\<close>

text \<open>
  C2 does not hold of the code. \<open>HTTPBotHandler.execute_capability\<close> catches the
  transport error or the \<open>HTTPError\<close> of \<open>raise_for_status\<close> and returns a dictionary
  with \<open>status = 'error'\<close>; \<open>_execute_step\<close> looks only for an exception and wraps any
  returned value as \<open>success = True\<close>. In a command of two steps on a service whose
  connection is refused, or which answers 500, both steps are recorded as successful,
  the second step runs, and the command succeeds.
\<close>

theorem http_failure_counted_as_success:
  "fst (execute_command ''twice'' ''u1'' ''ann'' None (http_system refusing_post)) =
     Inr \<lparr>success = True, steps_executed = Some 2, total_steps = Some 2,
          results = Some
            [\<lparr>o_step = 1, o_bot_name = Some ''svc'', o_capability_id = Some ''run'', o_success = True,
              o_result = http_error_result ''svc'' (Some ''run'') ''Connection refused'', o_error = None\<rparr>,
             \<lparr>o_step = 2, o_bot_name = Some ''svc'', o_capability_id = Some ''run'', o_success = True,
              o_result = http_error_result ''svc'' (Some ''run'') ''Connection refused'', o_error = None\<rparr>],
          error = None\<rparr>
   \<and> fst (execute_command ''twice'' ''u1'' ''ann'' None (http_system error_post)) =
     Inr \<lparr>success = True, steps_executed = Some 2, total_steps = Some 2,
          results = Some
            [\<lparr>o_step = 1, o_bot_name = Some ''svc'', o_capability_id = Some ''run'', o_success = True,
              o_result = http_error_result ''svc'' (Some ''run'')
                 ''500 Server Error: Internal Server Error for url: http://svc.local/execute/run'',
              o_error = None\<rparr>,
             \<lparr>o_step = 2, o_bot_name = Some ''svc'', o_capability_id = Some ''run'', o_success = True,
              o_result = http_error_result ''svc'' (Some ''run'')
                 ''500 Server Error: Internal Server Error for url: http://svc.local/execute/run'',
              o_error = None\<rparr>],
          error = None\<rparr>
   \<and> length (invocations (snd (execute_command ''twice'' ''u1'' ''ann'' None (http_system refusing_post)))) = 2"
  by (simp add: http_system_def refusing_post_def error_post_def HTTPBotHandler_def
      register_capability_def db_register_capability_def log_action_def dumps_details_def
      init_system_def init_db_def register_bot_handler_def save_custom_command_def
      mk_step_def Let_def cache_key_def or_empty_dict_def or_empty_list_def
      get_custom_command_def fetchone_def execute_command_def exec_body_def get_capability_def
      permission_denied_def execute_step_def traced_def call_handler_def raise_for_status_def
      rstrip_slash_def show_nat.simps digit_char_def http_error_result_def success_details_def
      opt_str_def)

subsection \<open>C3: the empty step list\<close>

text \<open>
  C3, as stated, fails: the loop of \<open>validate_command_steps\<close> has nothing to reject in
  an empty list.
\<close>

theorem validate_command_steps_empty_counterexample:
  "fst (fst (validate_command_steps [] example_system)) \<noteq> False"
  by (simp add: validate_command_steps_def)

text \<open>
  C3 (amended): \<open>validate_command_steps\<close> applied to the empty step list accepts it: it
  returns \<open>(True, None)\<close> and leaves the registry as it was.
\<close>

theorem validate_command_steps_empty: "validate_command_steps [] s = ((True, None), s)"
  by (simp add: validate_command_steps_def)

subsection \<open>C4: the count of executed steps\<close>

text \<open>
  C4: let the first \<open>i - 1\<close> steps of a stored command run to the end of the loop body.
  If step \<open>i\<close> (1-based) does not resolve in the registry, the result reports
  \<open>steps_executed = i - 1\<close>; so it does if permission for step \<open>i\<close> is denied; if the
  dispatch of step \<open>i\<close> was attempted and failed, the result reports
  \<open>steps_executed = i\<close>. In each case the result is a failure and it is returned, not
  raised.
\<close>

theorem steps_executed_accounting:
  assumes cmd: "get_custom_command name (db s) = Some command"
    and i: "1 \<le> i" "i \<le> length (steps command)"
    and pre: "run_steps name u un x (length (steps command)) 0 (take (i - 1) (steps command)) [] s
                = (Continue rs, s1)"
    and st: "st = steps command ! (i - 1)"
    and got: "get_capability (step_bot_name st) (step_capability_id st) s1 = (c, s2)"
  shows "(c = None \<longrightarrow>
            (\<exists>r s'. execute_command name u un x s = (Inr r, s') \<and> \<not> success r \<and>
                     steps_executed r = Some (i - 1)))
       \<and> (\<forall>cap. c = Some cap \<and> permission_denied u (step_bot_name st) (step_capability_id st) cap (db s2) \<longrightarrow>
            (\<exists>r s'. execute_command name u un x s = (Inr r, s') \<and> \<not> success r \<and>
                     steps_executed r = Some (i - 1)))
       \<and> (\<forall>cap sr s3. c = Some cap \<and>
              \<not> permission_denied u (step_bot_name st) (step_capability_id st) cap (db s2) \<and>
              execute_step (step_bot_name st) (step_capability_id st) (step_params st) x s2 = (Inr sr, s3) \<and>
              \<not> sr_success sr \<longrightarrow>
            (\<exists>r s'. execute_command name u un x s = (Inr r, s') \<and> \<not> success r \<and>
                     steps_executed r = Some i))"
proof (intro conjI allI impI)
  assume "c = None"
  with got exec_body_unresolved [of st s1 s2 name u un x "length (steps command)" "i - 1" rs]
  obtain msg where "exec_body name u un x (length (steps command)) (i - 1) st rs s1 =
     (Return \<lparr>success = False, steps_executed = Some (i - 1), total_steps = Some (length (steps command)),
              results = Some rs, error = Some msg\<rparr>,
      log_failure (failure_entry name u un (i - 1 + 1) msg) s2)" by auto
  from execute_command_stops [OF cmd i pre this [unfolded st]]
  show "\<exists>r s'. execute_command name u un x s = (Inr r, s') \<and> \<not> success r \<and> steps_executed r = Some (i - 1)"
    by simp
next
  fix cap
  assume "c = Some cap \<and> permission_denied u (step_bot_name st) (step_capability_id st) cap (db s2)"
  with got exec_body_denied [of st s1 cap s2 u name un x "length (steps command)" "i - 1" rs]
  obtain msg where "exec_body name u un x (length (steps command)) (i - 1) st rs s1 =
     (Return \<lparr>success = False, steps_executed = Some (i - 1), total_steps = Some (length (steps command)),
              results = Some rs, error = Some msg\<rparr>,
      log_failure (failure_entry name u un (i - 1 + 1) msg) s2)" by auto
  from execute_command_stops [OF cmd i pre this [unfolded st]]
  show "\<exists>r s'. execute_command name u un x s = (Inr r, s') \<and> \<not> success r \<and> steps_executed r = Some (i - 1)"
    by simp
next
  fix cap sr s3
  assume a: "c = Some cap \<and>
              \<not> permission_denied u (step_bot_name st) (step_capability_id st) cap (db s2) \<and>
              execute_step (step_bot_name st) (step_capability_id st) (step_params st) x s2 = (Inr sr, s3) \<and>
              \<not> sr_success sr"
  from a got have g: "get_capability (step_bot_name st) (step_capability_id st) s1 = (Some cap, s2)" by simp
  from a have d: "\<not> permission_denied u (step_bot_name st) (step_capability_id st) cap (db s2)"
    and e: "execute_step (step_bot_name st) (step_capability_id st) (step_params st) x s2 = (Inr sr, s3)"
    and f: "\<not> sr_success sr" by simp_all
  note b = exec_body_dispatch_failed [OF g d e f, of name un "length (steps command)" "i - 1" rs]
  from execute_command_stops [OF cmd i pre b [unfolded st]] i
  show "\<exists>r s'. execute_command name u un x s = (Inr r, s') \<and> \<not> success r \<and> steps_executed r = Some i"
    by simp
qed

text \<open>
  The three cases of C4 in the example: \<open>ghost\<close> stops at an unknown capability in step
  2, \<open>guarded\<close> at a denied permission in step 1, \<open>trio\<close> at a handler that raises in
  step 2.
\<close>

theorem steps_executed_accounting_witness:
  "(\<exists>r s'. execute_command ''ghost'' ''u1'' ''ann'' None example_system = (Inr r, s') \<and>
            \<not> success r \<and> steps_executed r = Some (2 - 1))
   \<and> (\<exists>r s'. execute_command ''guarded'' ''u1'' ''ann'' None example_system = (Inr r, s') \<and>
            \<not> success r \<and> steps_executed r = Some (1 - 1))
   \<and> (\<exists>r s'. execute_command ''trio'' ''u1'' ''ann'' None example_system = (Inr r, s') \<and>
            \<not> success r \<and> steps_executed r = Some 2)"
proof (intro conjI)
  let ?s1 = after_ping
  let ?o1 = "\<lparr>o_step = 1, o_bot_name = Some ''alpha'', o_capability_id = Some ''ping'',
              o_success = True, o_result = Json (JStr ''done''), o_error = None\<rparr>"
  {
    let ?cmd = "\<lparr>command_name = ''ghost'', command_description = ''a command'',
                 steps = [mk_step ''alpha'' ''ping'', mk_step ''delta'' ''none''],
                 created_by = ''u0'', enabled = True\<rparr>"
    let ?st = "mk_step ''delta'' ''none''"
    have cmd: "get_custom_command ''ghost'' (db example_system) = Some ?cmd"
      by (simp add: example_facts get_custom_command_def fetchone_def)
    have i: "1 \<le> (2::nat)" "2 \<le> length (steps ?cmd)" by simp_all
    have pre: "run_steps ''ghost'' ''u1'' ''ann'' None (length (steps ?cmd)) 0 (take (2 - 1) (steps ?cmd)) []
                 example_system = (Continue [?o1], ?s1)"
      by (simp add: example_first_step)
    have st: "?st = steps ?cmd ! (2 - 1)" by simp
    have got: "get_capability (step_bot_name ?st) (step_capability_id ?st) ?s1 = (None, ?s1)"
      by (simp add: example_facts after_ping_facts run_defs)
    from steps_executed_accounting [OF cmd i pre st got]
    show "\<exists>r s'. execute_command ''ghost'' ''u1'' ''ann'' None example_system = (Inr r, s') \<and>
            \<not> success r \<and> steps_executed r = Some (2 - 1)"
      by simp
  }
  {
    let ?cmd = "\<lparr>command_name = ''guarded'', command_description = ''a command'',
                 steps = [mk_step ''alpha'' ''secure''], created_by = ''u0'', enabled = True\<rparr>"
    let ?st = "mk_step ''alpha'' ''secure''"
    let ?cap = "\<lparr>cap_bot_name = ''alpha'', cap_capability_id = ''secure'',
         cap_description = ''a capability'', cap_parameters = Native (JDict []),
         cap_permissions_required = Native [''admin'']\<rparr>"
    have cmd: "get_custom_command ''guarded'' (db example_system) = Some ?cmd"
      by (simp add: example_facts get_custom_command_def fetchone_def)
    have i: "1 \<le> (1::nat)" "1 \<le> length (steps ?cmd)" by simp_all
    have pre: "run_steps ''guarded'' ''u1'' ''ann'' None (length (steps ?cmd)) 0 (take (1 - 1) (steps ?cmd)) []
                 example_system = (Continue [], example_system)"
      by simp
    have st: "?st = steps ?cmd ! (1 - 1)" by simp
    have got: "get_capability (step_bot_name ?st) (step_capability_id ?st) example_system
                 = (Some ?cap, example_system)"
      by (simp add: example_facts after_ping_facts run_defs)
    have denied: "permission_denied ''u1'' (step_bot_name ?st) (step_capability_id ?st) ?cap (db example_system)"
      by (simp add: example_facts after_ping_facts run_defs)
    from steps_executed_accounting [OF cmd i pre st got] denied
    show "\<exists>r s'. execute_command ''guarded'' ''u1'' ''ann'' None example_system = (Inr r, s') \<and>
            \<not> success r \<and> steps_executed r = Some (1 - 1)"
      by blast
  }
  {
    let ?cmd = "\<lparr>command_name = ''trio'', command_description = ''a command'',
                 steps = [mk_step ''alpha'' ''ping'', mk_step ''beta'' ''crash'', mk_step ''gamma'' ''echo''],
                 created_by = ''u0'', enabled = True\<rparr>"
    let ?st = "mk_step ''beta'' ''crash''"
    let ?cap = "\<lparr>cap_bot_name = ''beta'', cap_capability_id = ''crash'',
         cap_description = ''a capability'', cap_parameters = Native (JDict []),
         cap_permissions_required = Native []\<rparr>"
    let ?sr = "\<lparr>sr_success = False, sr_result = None, sr_error = Some ''boom''\<rparr>"
    let ?run = "execute_step (step_bot_name ?st) (step_capability_id ?st) (step_params ?st) None ?s1"
    have cmd: "get_custom_command ''trio'' (db example_system) = Some ?cmd"
      by (simp add: example_facts get_custom_command_def fetchone_def)
    have i: "1 \<le> (2::nat)" "2 \<le> length (steps ?cmd)" by simp_all
    have pre: "run_steps ''trio'' ''u1'' ''ann'' None (length (steps ?cmd)) 0 (take (2 - 1) (steps ?cmd)) []
                 example_system = (Continue [?o1], ?s1)"
      by (simp add: example_first_step)
    have st: "?st = steps ?cmd ! (2 - 1)" by simp
    have got: "get_capability (step_bot_name ?st) (step_capability_id ?st) ?s1 = (Some ?cap, ?s1)"
      by (simp add: example_facts after_ping_facts run_defs)
    have allowed: "\<not> permission_denied ''u1'' (step_bot_name ?st) (step_capability_id ?st) ?cap (db ?s1)"
      by (simp add: permission_denied_def)
    have ran: "?run = (Inr ?sr, snd ?run)"
      by (rule pair_collapse) (simp add: example_facts after_ping_facts run_defs step_params_def)
    have failed: "\<not> sr_success ?sr" by simp
    from steps_executed_accounting [OF cmd i pre st got] allowed ran failed
    show "\<exists>r s'. execute_command ''trio'' ''u1'' ''ann'' None example_system = (Inr r, s') \<and>
            \<not> success r \<and> steps_executed r = Some 2"
      by blast
  }
qed

subsection \<open>C5: fail-fast in a command of three steps\<close>

text \<open>
  C5, as stated, fails: handlers are bound to bots, not to steps. In the command
  \<open>same_bot\<close> all three steps name \<open>alpha\<close>; step 2 fails at dispatch, and the handler
  bound to the bot of step 3 has been invoked twice, for steps 1 and 2.
\<close>

theorem same_bot_invoked_counterexample:
  "map_option (\<lambda>c. map step_bot_name (steps c)) (get_custom_command ''same_bot'' (db example_system))
     = Some [Some ''alpha'', Some ''alpha'', Some ''alpha'']
   \<and> fst (execute_command ''same_bot'' ''u1'' ''ann'' None example_system) =
       Inr \<lparr>success = False, steps_executed = Some 2, total_steps = Some 3,
            results = Some [\<lparr>o_step = 1, o_bot_name = Some ''alpha'', o_capability_id = Some ''ping'',
                             o_success = True, o_result = Json (JStr ''done''), o_error = None\<rparr>,
                            \<lparr>o_step = 2, o_bot_name = Some ''alpha'', o_capability_id = Some ''crash'',
                             o_success = False, o_result = Json JNull, o_error = Some ''boom''\<rparr>],
            error = Some ''Step 2 failed: boom''\<rparr>
   \<and> new_invocations example_system (snd (execute_command ''same_bot'' ''u1'' ''ann'' None example_system))
       = [(''alpha'', Some ''ping'', JDict [], None), (''alpha'', Some ''crash'', JDict [], None)]"
  by (simp add: example_facts run_defs new_invocations_def)

text \<open>
  C5 (amended): for every command of three steps whose first step is dispatched with
  success and whose second step fails at dispatch, \<open>execute_command\<close> reports
  \<open>steps_executed = 2\<close> and \<open>total_steps = 3\<close>, its results hold the outcomes of steps 1
  and 2 only, and step 3 is never dispatched: no handler is called after the dispatch of
  step 2, the calls made are at most two and go to the bots of steps 1 and 2, so the
  handler bound to the bot of step 3 is not invoked when that bot differs from the bots
  of steps 1 and 2.
\<close>

theorem fail_fast_three_steps:
  assumes cmd: "get_custom_command name (db s) = Some command"
    and three: "steps command = [st1, st2, st3]"
    and first: "exec_body name u un x 3 0 st1 [] s = (Continue rs1, s1)"
    and got: "get_capability (step_bot_name st2) (step_capability_id st2) s1 = (Some cap, s2)"
    and allowed: "\<not> permission_denied u (step_bot_name st2) (step_capability_id st2) cap (db s2)"
    and ran: "execute_step (step_bot_name st2) (step_capability_id st2) (step_params st2) x s2 = (Inr sr, s3)"
    and failed: "\<not> sr_success sr"
  shows "\<exists>r s' o1.
           execute_command name u un x s = (Inr r, s') \<and> \<not> success r \<and>
           steps_executed r = Some 2 \<and> total_steps r = Some 3 \<and>
           results r = Some [o1, outcome_of 2 st2 sr] \<and> o_step o1 = 1 \<and> o_success o1 \<and>
           invocations s' = invocations s3 \<and>
           length (new_invocations s s') \<le> 2 \<and>
           (\<forall>call \<in> set (new_invocations s s').
              Some (fst call) = step_bot_name st1 \<or> Some (fst call) = step_bot_name st2) \<and>
           (step_bot_name st3 \<noteq> step_bot_name st1 \<and> step_bot_name st3 \<noteq> step_bot_name st2 \<longrightarrow>
              (\<forall>call \<in> set (new_invocations s s'). Some (fst call) \<noteq> step_bot_name st3))"
proof -
  from exec_body_continue [OF first]
  obtain sr1 calls1 where
    rs1: "rs1 = [outcome_of 1 st1 sr1]" and ok1: "sr_success sr1" and
    inv1: "invocations s1 = invocations s @ calls1" "length calls1 \<le> 1"
      "\<forall>call \<in> set calls1. Some (fst call) = step_bot_name st1"
    by auto
  from execute_step_invocations [OF ran] get_capability_invocations [OF got]
  obtain calls2 where
    inv2: "invocations s3 = invocations s1 @ calls2" "length calls2 \<le> 1"
      "\<forall>call \<in> set calls2. Some (fst call) = step_bot_name st2"
    by auto
  let ?msg = "''Step '' @ show_nat 2 @ '' failed: '' @
                (case sr_error sr of None \<Rightarrow> ''Unknown error'' | Some m \<Rightarrow> m)"
  let ?r = "\<lparr>success = False, steps_executed = Some 2, total_steps = Some 3,
              results = Some [outcome_of 1 st1 sr1, outcome_of 2 st2 sr], error = Some ?msg\<rparr>"
  let ?s' = "log_failure (failure_entry name u un 2 ?msg) s3"
  from exec_body_dispatch_failed [OF got allowed ran failed, of name un 3 1 rs1]
  have second: "exec_body name u un x 3 1 st2 rs1 s1 = (Return ?r, ?s')"
    by (simp add: rs1 numeral_2_eq_2)
  have len: "length [st1, st2, st3] = 3" by simp
  have "run_steps name u un x 3 0 [st1, st2, st3] [] s = (Return ?r, ?s')"
    using first second by simp
  then have "run_steps name u un x (length (steps command)) 0 (steps command) [] s = (Return ?r, ?s')"
    by (simp only: three len)
  then have run: "execute_command name u un x s = (Inr ?r, ?s')"
    using cmd by (simp add: execute_command_def)
  have new: "new_invocations s ?s' = calls1 @ calls2"
    by (simp add: new_invocations_def log_failure_invocations inv1 inv2)
  have a: "length (new_invocations s ?s') \<le> 2" using inv1(2) inv2(2) new by simp
  have b: "\<forall>call \<in> set (new_invocations s ?s').
              Some (fst call) = step_bot_name st1 \<or> Some (fst call) = step_bot_name st2"
    using inv1(3) inv2(3) new by auto
  have c: "step_bot_name st3 \<noteq> step_bot_name st1 \<and> step_bot_name st3 \<noteq> step_bot_name st2 \<longrightarrow>
              (\<forall>call \<in> set (new_invocations s ?s'). Some (fst call) \<noteq> step_bot_name st3)"
    using b by metis
  have d: "o_step (outcome_of 1 st1 sr1) = 1 \<and> o_success (outcome_of 1 st1 sr1)"
    using ok1 by (simp add: outcome_of_def)
  from run a b c d show ?thesis
    by (intro exI [of _ ?r] exI [of _ ?s'] exI [of _ "outcome_of 1 st1 sr1"])
       (simp add: log_failure_invocations)
qed

text \<open>
  The hypotheses of C5 (amended) hold for the command \<open>trio\<close> of the example, whose
  third step names a bot of its own.
\<close>

theorem fail_fast_three_steps_witness:
  "\<exists>r s'. execute_command ''trio'' ''u1'' ''ann'' None example_system = (Inr r, s') \<and>
      \<not> success r \<and> steps_executed r = Some 2 \<and> total_steps r = Some 3 \<and>
      map_option (map o_step) (results r) = Some [1, 2] \<and>
      length (new_invocations example_system s') \<le> 2 \<and>
      (\<forall>call \<in> set (new_invocations example_system s'). fst call \<noteq> ''gamma'')"
proof -
  let ?s1 = after_ping
  let ?o1 = "\<lparr>o_step = 1, o_bot_name = Some ''alpha'', o_capability_id = Some ''ping'',
              o_success = True, o_result = Json (JStr ''done''), o_error = None\<rparr>"
  let ?cmd = "\<lparr>command_name = ''trio'', command_description = ''a command'',
               steps = [mk_step ''alpha'' ''ping'', mk_step ''beta'' ''crash'', mk_step ''gamma'' ''echo''],
               created_by = ''u0'', enabled = True\<rparr>"
  let ?st = "mk_step ''beta'' ''crash''"
  let ?cap = "\<lparr>cap_bot_name = ''beta'', cap_capability_id = ''crash'',
       cap_description = ''a capability'', cap_parameters = Native (JDict []),
       cap_permissions_required = Native []\<rparr>"
  let ?sr = "\<lparr>sr_success = False, sr_result = None, sr_error = Some ''boom''\<rparr>"
  let ?run = "execute_step (step_bot_name ?st) (step_capability_id ?st) (step_params ?st) None ?s1"
  have cmd: "get_custom_command ''trio'' (db example_system) = Some ?cmd"
    by (simp add: example_facts get_custom_command_def fetchone_def)
  have three: "steps ?cmd = [mk_step ''alpha'' ''ping'', ?st, mk_step ''gamma'' ''echo'']" by simp
  have first: "exec_body ''trio'' ''u1'' ''ann'' None 3 0 (mk_step ''alpha'' ''ping'') [] example_system
                 = (Continue [?o1], ?s1)"
    by (rule example_first_step)
  have got: "get_capability (step_bot_name ?st) (step_capability_id ?st) ?s1 = (Some ?cap, ?s1)"
    by (simp add: example_facts after_ping_facts run_defs)
  have allowed: "\<not> permission_denied ''u1'' (step_bot_name ?st) (step_capability_id ?st) ?cap (db ?s1)"
    by (simp add: permission_denied_def)
  have ran: "?run = (Inr ?sr, snd ?run)"
    by (rule pair_collapse) (simp add: example_facts after_ping_facts run_defs step_params_def)
  have failed: "\<not> sr_success ?sr" by simp
  have distinct: "step_bot_name (mk_step ''gamma'' ''echo'') \<noteq> step_bot_name (mk_step ''alpha'' ''ping'') \<and>
                  step_bot_name (mk_step ''gamma'' ''echo'') \<noteq> step_bot_name ?st"
    by (simp add: mk_step_def)
  from fail_fast_three_steps [OF cmd three first got allowed ran failed]
  obtain r s' o1 where
    "execute_command ''trio'' ''u1'' ''ann'' None example_system = (Inr r, s')" "\<not> success r"
    "steps_executed r = Some 2" "total_steps r = Some 3"
    "results r = Some [o1, outcome_of 2 ?st ?sr]" "o_step o1 = 1"
    "length (new_invocations example_system s') \<le> 2"
    "step_bot_name (mk_step ''gamma'' ''echo'') \<noteq> step_bot_name (mk_step ''alpha'' ''ping'') \<and>
       step_bot_name (mk_step ''gamma'' ''echo'') \<noteq> step_bot_name ?st \<longrightarrow>
     (\<forall>call \<in> set (new_invocations example_system s').
         Some (fst call) \<noteq> step_bot_name (mk_step ''gamma'' ''echo''))"
    by blast
  with distinct show ?thesis
    by (intro exI [of _ r] exI [of _ s']) (simp add: outcome_of_def mk_step_def)
qed

subsection \<open>C6: registering a capability twice\<close>

text \<open>
  C6: for a pair \<open>(bot_name, capability_id)\<close> not yet in the store, the first
  \<open>register_capability\<close> returns true, after which \<open>get_capability\<close> returns the
  capability with the description, parameters and permissions given; a second call for
  the same pair, whatever its other arguments, returns false and changes nothing: the
  state is the one the first call left, in the cache and in the store.
\<close>

theorem register_capability_twice:
  assumes fresh: "\<not> list_ex (\<lambda>r. row_bot_name r = b \<and> row_capability_id r = c) (capabilities (db s))"
  shows "\<exists>s1. register_capability b c description parameters perms s = (Inr True, s1) \<and>
           fst (get_capability (Some b) (Some c) s1) =
             Some \<lparr>cap_bot_name = b, cap_capability_id = c, cap_description = description,
                   cap_parameters = Native (or_empty_dict parameters),
                   cap_permissions_required = Native (or_empty_list perms)\<rparr> \<and>
           db_get_capability (Some b) (Some c) (db s1) =
             Some \<lparr>cap_bot_name = b, cap_capability_id = c, cap_description = description,
                   cap_parameters = Text (json_dumps (or_empty_dict parameters)),
                   cap_permissions_required = Text (json_dumps (JList (map JStr (or_empty_list perms))))\<rparr> \<and>
           register_capability b c description2 parameters2 perms2 s1 = (Inr False, s1)"
proof -
  let ?row = "\<lparr>row_bot_name = b, row_capability_id = c, row_description = description,
               row_parameters = json_dumps (or_empty_dict parameters),
               row_permissions_required = json_dumps (JList (map JStr (or_empty_list perms)))\<rparr>"
  let ?cap = "\<lparr>cap_bot_name = b, cap_capability_id = c, cap_description = description,
               cap_parameters = Native (or_empty_dict parameters),
               cap_permissions_required = Native (or_empty_list perms)\<rparr>"
  obtain s1 where
    r: "register_capability b c description parameters perms s = (Inr True, s1)" and
    cache: "capabilities_cache s1 (cache_key (Some b) (Some c)) = Some ?cap" and
    rows: "capabilities (db s1) = capabilities (db s) @ [?row]"
    using fresh
    by (simp add: register_capability_def db_register_capability_def log_action_Json Let_def)
  have g: "fst (get_capability (Some b) (Some c) s1) = Some ?cap"
    using cache by (simp add: get_capability_def)
  have "filter (\<lambda>r. sql_eq (Some (row_bot_name r)) (Some b) \<and> sql_eq (Some (row_capability_id r)) (Some c))
          (capabilities (db s)) = []"
    using fresh by (intro fresh_filter) (simp add: sql_eq_def)
  then have d: "db_get_capability (Some b) (Some c) (db s1) = Some (dict_of_row ?row)"
    by (simp add: db_get_capability_def rows fetchone_def sql_eq_def)
  have dup: "list_ex (\<lambda>r. row_bot_name r = b \<and> row_capability_id r = c) (capabilities (db s1))"
    by (simp add: rows)
  have again: "register_capability b c description2 parameters2 perms2 s1 = (Inr False, s1)"
    using dup by (simp add: register_capability_def db_register_capability_def)
  from r g d again show ?thesis by (simp add: dict_of_row_def)
qed

text \<open>
  C6 in the empty installation.
\<close>

theorem register_capability_twice_witness:
  "\<exists>s1. register_capability ''alpha'' ''ping'' ''first'' None (Some [''execute'']) (init_system ()) = (Inr True, s1) \<and>
      map_option cap_description (fst (get_capability (Some ''alpha'') (Some ''ping'') s1)) = Some ''first'' \<and>
      map_option cap_description (db_get_capability (Some ''alpha'') (Some ''ping'') (db s1)) = Some ''first'' \<and>
      register_capability ''alpha'' ''ping'' ''second'' (Some (JDict [(''city'', JStr ''string'')])) None s1
        = (Inr False, s1)"
proof -
  have fresh: "\<not> list_ex (\<lambda>r. row_bot_name r = ''alpha'' \<and> row_capability_id r = ''ping'')
                   (capabilities (db (init_system ())))"
    by (simp add: init_system_def init_db_def)
  from register_capability_twice [OF fresh, of "''first''" None "Some [''execute'']" "''second''"
      "Some (JDict [(''city'', JStr ''string'')])" None]
  show ?thesis by auto
qed

subsection \<open>C7: pairs whose names contain a colon\<close>

text \<open>
  C7 does not hold of the code. The store keeps the pairs \<open>('a:b', 'c')\<close> and
  \<open>('a', 'b:c')\<close> apart, as its UNIQUE constraint on the two columns says, but the
  registry's cache files both under the key \<open>'a:b:c'\<close>. After both are registered,
  \<open>get_capability('a:b', 'c')\<close> returns the capability of bot \<open>'a'\<close> with id \<open>'b:c'\<close>,
  while the store's own lookup returns the right row.
\<close>

theorem colon_key_collision:
  "case register_capability ''a:b'' ''c'' ''first'' None None (init_system ()) of
     (r1, s1) \<Rightarrow>
       (case register_capability ''a'' ''b:c'' ''second'' None None s1 of
          (r2, s2) \<Rightarrow>
            r1 = Inr True \<and> r2 = Inr True \<and>
            map (\<lambda>r. (row_bot_name r, row_capability_id r)) (capabilities (db s2))
              = [(''a:b'', ''c''), (''a'', ''b:c'')] \<and>
            map_option (\<lambda>c. (cap_bot_name c, cap_capability_id c, cap_description c))
               (fst (get_capability (Some ''a:b'') (Some ''c'') s2)) = Some (''a'', ''b:c'', ''second'') \<and>
            map_option (\<lambda>c. (cap_bot_name c, cap_capability_id c, cap_description c))
               (db_get_capability (Some ''a:b'') (Some ''c'') (db s2)) = Some (''a:b'', ''c'', ''first''))"
  by (simp add: register_capability_def db_register_capability_def log_action_Json Let_def
      init_system_def init_db_def get_capability_def cache_key_def db_get_capability_def
      fetchone_def sql_eq_def dict_of_row_def)

subsection \<open>C8: a handler that raises\<close>

text \<open>
  C8, as stated, fails: both guards around the handler call are \<open>except Exception\<close>, which
  lets pass what derives from \<open>BaseException\<close> only. In the command \<open>halt\<close> of the example
  the handler of step 2 calls \<open>sys.exit\<close>; \<open>SystemExit\<close> leaves \<open>execute_command\<close>, which
  returns no result and writes no audit entry.
\<close>

theorem handler_system_exit_counterexample:
  "map_option steps (get_custom_command ''halt'' (db example_system)) =
     Some [mk_step ''alpha'' ''ping'', mk_step ''omega'' ''quit'', mk_step ''gamma'' ''echo'']
   \<and> bot_handlers example_system ''omega'' = Some (Function quitter)
   \<and> quitter (Some ''quit'') (JDict []) None () = (Inl (BaseException ''shutting down''), ())
   \<and> fst (execute_command ''halt'' ''u1'' ''ann'' None example_system) =
       Inl (BaseException ''shutting down'')
   \<and> audit_logs (db (snd (execute_command ''halt'' ''u1'' ''ann'' None example_system))) =
       audit_logs (db example_system)"
  by (simp add: example_facts run_defs)

text \<open>
  C8 (amended): let the first \<open>i - 1\<close> steps of a stored command run to the end of the
  loop body, and let step \<open>i\<close> resolve and pass the permission gate. If the handler bound
  to its bot, a function or an object, raises an exception \<open>e\<close> of class \<open>Exception\<close> or of
  a subclass, then \<open>execute_command\<close> returns a result and raises nothing; the result is a
  failure whose last outcome is that of step \<open>i\<close>, with \<open>success = False\<close> and the error
  text \<open>str(e)\<close>. If \<open>e\<close> derives from \<open>BaseException\<close> only, \<open>execute_command\<close> returns
  nothing and \<open>e\<close> reaches its caller.
\<close>

theorem handler_exception_caught:
  assumes cmd: "get_custom_command name (db s) = Some command"
    and i: "1 \<le> i" "i \<le> length (steps command)"
    and pre: "run_steps name u un x (length (steps command)) 0 (take (i - 1) (steps command)) [] s
                = (Continue rs, s1)"
    and st: "st = steps command ! (i - 1)"
    and got: "get_capability (step_bot_name st) (step_capability_id st) s1 = (Some cap, s2)"
    and allowed: "\<not> permission_denied u (step_bot_name st) (step_capability_id st) cap (db s2)"
    and bound: "step_bot_name st = Some b" "bot_handlers s2 b = Some h" "h = Function f \<or> h = Object f"
    and raises: "f (step_capability_id st) (step_params st) x (world s2) = (Inl e, w)"
  shows "(catchable e \<longrightarrow>
           (\<exists>r s'. execute_command name u un x s = (Inr r, s') \<and> \<not> success r \<and>
              steps_executed r = Some i \<and>
              results r = Some (rs @ [\<lparr>o_step = i, o_bot_name = Some b,
                                        o_capability_id = step_capability_id st, o_success = False,
                                        o_result = Json JNull, o_error = Some (str_exn e)\<rparr>]) \<and>
              error r = Some (''Step '' @ show_nat i @ '' failed: '' @ str_exn e)))
       \<and> (\<not> catchable e \<longrightarrow> (\<exists>s'. execute_command name u un x s = (Inl e, s')))"
proof (intro conjI impI)
  let ?run = "execute_step (step_bot_name st) (step_capability_id st) (step_params st) x s2"
  let ?s3 = "s2\<lparr>world := w,
                 invocations := invocations s2 @ [(b, step_capability_id st, step_params st, x)]\<rparr>"
  {
    assume c: "catchable e"
    let ?sr = "\<lparr>sr_success = False, sr_result = None, sr_error = Some (str_exn e)\<rparr>"
    have call: "call_handler f b (step_capability_id st) (step_params st) x s2 = (Inr ?sr, ?s3)"
      using raises c by (simp add: call_handler_def)
    have ran: "?run = (Inr ?sr, snd ?run)"
      using bound call by (intro pair_collapse) (auto simp: execute_step_def traced_def)
    have failed: "\<not> sr_success ?sr" by simp
    note b = exec_body_dispatch_failed
      [OF got allowed ran failed, of name un "length (steps command)" "i - 1" rs]
    from execute_command_stops [OF cmd i pre b [unfolded st]] i bound(1)
    show "\<exists>r s'. execute_command name u un x s = (Inr r, s') \<and> \<not> success r \<and>
              steps_executed r = Some i \<and>
              results r = Some (rs @ [\<lparr>o_step = i, o_bot_name = Some b,
                                        o_capability_id = step_capability_id st, o_success = False,
                                        o_result = Json JNull, o_error = Some (str_exn e)\<rparr>]) \<and>
              error r = Some (''Step '' @ show_nat i @ '' failed: '' @ str_exn e)"
      by (simp add: outcome_of_def st)
  }
  {
    assume c: "\<not> catchable e"
    have call: "call_handler f b (step_capability_id st) (step_params st) x s2 = (Inl e, ?s3)"
      using raises c by (simp add: call_handler_def)
    have ran: "?run = (Inl e, snd ?run)"
      using bound call by (intro pair_collapse) (auto simp: execute_step_def traced_def)
    note b = exec_body_raised [OF got allowed ran, of name un "length (steps command)" "i - 1" rs]
    from execute_command_raises [OF cmd i pre b [unfolded st]]
    show "\<exists>s'. execute_command name u un x s = (Inl e, s')" by blast
  }
qed

text \<open>
  C8 (amended) in the example: in \<open>trio\<close> the handler of step 2 raises an exception of
  class \<open>Exception\<close>, in \<open>halt\<close> it raises \<open>SystemExit\<close>.
\<close>

theorem handler_exception_caught_witness:
  "(\<exists>r s'. execute_command ''trio'' ''u1'' ''ann'' None example_system = (Inr r, s') \<and>
      \<not> success r \<and> steps_executed r = Some 2 \<and>
      map_option (map o_success) (results r) = Some [True, False] \<and>
      map_option (map o_error) (results r) = Some [None, Some ''boom''] \<and>
      error r = Some ''Step 2 failed: boom'')
   \<and> (\<exists>s'. execute_command ''halt'' ''u1'' ''ann'' None example_system =
              (Inl (BaseException ''shutting down''), s'))"
proof (intro conjI)
  let ?s1 = after_ping
  let ?o1 = "\<lparr>o_step = 1, o_bot_name = Some ''alpha'', o_capability_id = Some ''ping'',
              o_success = True, o_result = Json (JStr ''done''), o_error = None\<rparr>"
  {
    let ?cmd = "\<lparr>command_name = ''trio'', command_description = ''a command'',
                 steps = [mk_step ''alpha'' ''ping'', mk_step ''beta'' ''crash'', mk_step ''gamma'' ''echo''],
                 created_by = ''u0'', enabled = True\<rparr>"
    let ?st = "mk_step ''beta'' ''crash''"
    let ?cap = "\<lparr>cap_bot_name = ''beta'', cap_capability_id = ''crash'',
         cap_description = ''a capability'', cap_parameters = Native (JDict []),
         cap_permissions_required = Native []\<rparr>"
    have cmd: "get_custom_command ''trio'' (db example_system) = Some ?cmd"
      by (simp add: example_facts get_custom_command_def fetchone_def)
    have i: "1 \<le> (2::nat)" "2 \<le> length (steps ?cmd)" by simp_all
    have pre: "run_steps ''trio'' ''u1'' ''ann'' None (length (steps ?cmd)) 0 (take (2 - 1) (steps ?cmd)) []
                 example_system = (Continue [?o1], ?s1)"
      by (simp add: example_first_step)
    have st: "?st = steps ?cmd ! (2 - 1)" by simp
    have got: "get_capability (step_bot_name ?st) (step_capability_id ?st) ?s1 = (Some ?cap, ?s1)"
      by (simp add: example_facts after_ping_facts run_defs)
    have allowed: "\<not> permission_denied ''u1'' (step_bot_name ?st) (step_capability_id ?st) ?cap (db ?s1)"
      by (simp add: permission_denied_def)
    have bound: "step_bot_name ?st = Some ''beta''" "bot_handlers ?s1 ''beta'' = Some (Function flaky)"
      "Function flaky = Function flaky \<or> Function flaky = Object flaky"
      by (simp_all add: example_facts after_ping_facts)
    have raises: "flaky (step_capability_id ?st) (step_params ?st) None (world ?s1)
                    = (Inl (Exception ''boom''), ())"
      by (simp add: flaky_def mk_step_def)
    from handler_exception_caught [OF cmd i pre st got allowed bound raises]
    show "\<exists>r s'. execute_command ''trio'' ''u1'' ''ann'' None example_system = (Inr r, s') \<and>
      \<not> success r \<and> steps_executed r = Some 2 \<and>
      map_option (map o_success) (results r) = Some [True, False] \<and>
      map_option (map o_error) (results r) = Some [None, Some ''boom''] \<and>
      error r = Some ''Step 2 failed: boom''"
      by (auto simp: show_nat.simps digit_char_def mk_step_def)
  }
  {
    let ?cmd = "\<lparr>command_name = ''halt'', command_description = ''a command'',
                 steps = [mk_step ''alpha'' ''ping'', mk_step ''omega'' ''quit'', mk_step ''gamma'' ''echo''],
                 created_by = ''u0'', enabled = True\<rparr>"
    let ?st = "mk_step ''omega'' ''quit''"
    let ?cap = "\<lparr>cap_bot_name = ''omega'', cap_capability_id = ''quit'',
         cap_description = ''a capability'', cap_parameters = Native (JDict []),
         cap_permissions_required = Native []\<rparr>"
    have cmd: "get_custom_command ''halt'' (db example_system) = Some ?cmd"
      by (simp add: example_facts get_custom_command_def fetchone_def)
    have i: "1 \<le> (2::nat)" "2 \<le> length (steps ?cmd)" by simp_all
    have pre: "run_steps ''halt'' ''u1'' ''ann'' None (length (steps ?cmd)) 0 (take (2 - 1) (steps ?cmd)) []
                 example_system = (Continue [?o1], ?s1)"
      by (simp add: example_first_step)
    have st: "?st = steps ?cmd ! (2 - 1)" by simp
    have got: "get_capability (step_bot_name ?st) (step_capability_id ?st) ?s1 = (Some ?cap, ?s1)"
      by (simp add: example_facts after_ping_facts run_defs)
    have allowed: "\<not> permission_denied ''u1'' (step_bot_name ?st) (step_capability_id ?st) ?cap (db ?s1)"
      by (simp add: permission_denied_def)
    have bound: "step_bot_name ?st = Some ''omega''" "bot_handlers ?s1 ''omega'' = Some (Function quitter)"
      "Function quitter = Function quitter \<or> Function quitter = Object quitter"
      by (simp_all add: example_facts after_ping_facts)
    have raises: "quitter (step_capability_id ?st) (step_params ?st) None (world ?s1)
                    = (Inl (BaseException ''shutting down''), ())"
      by (simp add: quitter_def)
    from handler_exception_caught [OF cmd i pre st got allowed bound raises]
    show "\<exists>s'. execute_command ''halt'' ''u1'' ''ann'' None example_system =
              (Inl (BaseException ''shutting down''), s')"
      by simp
  }
qed

subsection \<open>C9: a command that is not stored\<close>

text \<open>
  C9 does not hold of the code in one point. For a name that is not stored the result
  is a failure whose error text holds the name, no handler is called and exactly one
  audit row \<open>command_executed\<close> with \<open>success = False\<close> is written; but the dictionary
  returned has no \<open>steps_executed\<close> key (nor \<open>total_steps\<close>, nor \<open>results\<close>), against
  the docstring of \<open>execute_command\<close> and every other exit of the function. It does not
  report zero steps.
\<close>

theorem unknown_command_result_lacks_steps_executed:
  "get_custom_command ''missing'' (db example_system) = None
   \<and> fst (execute_command ''missing'' ''u1'' ''ann'' None example_system) =
       Inr \<lparr>success = False, steps_executed = None, total_steps = None, results = None,
            error = Some ''Command \"missing\" not found''\<rparr>
   \<and> new_invocations example_system (snd (execute_command ''missing'' ''u1'' ''ann'' None example_system)) = []
   \<and> drop (length (audit_logs (db example_system)))
        (audit_logs (db (snd (execute_command ''missing'' ''u1'' ''ann'' None example_system)))) =
       [\<lparr>action_type = ''command_executed'', audit_user_id = Some ''u1'', audit_username = Some ''ann'',
         details = ''{\"command_name\": \"missing\", \"error\": \"Command not found\"}'',
         audit_success = False\<rparr>]"
proof -
  have none: "get_custom_command ''missing'' (db example_system) = None"
    by (simp add: example_facts get_custom_command_def fetchone_def)
  have dumped: "json_dumps (JDict [(''command_name'', JStr ''missing''), (''error'', JStr ''Command not found'')])
      = ''{\"command_name\": \"missing\", \"error\": \"Command not found\"}''"
    by code_simp
  show ?thesis
    by (simp add: none execute_command_not_found [OF none] new_invocations_def dumped del: json_dumps.simps)
qed

subsection \<open>C10: one outcome for each executed step\<close>



end
